theory Spec2Isabelle
  imports Complex_Main "HOL-Library.Sublist" "HOL-Library.Extended_Nat"
begin

section \<open>The request queue (ScrapeQueue)\<close>

text \<open>
  \<^verbatim>\<open>ScrapeQueue\<close> keeps two maps: \<^verbatim>\<open>processing\<close> (username to the pending promise of
  the scrape) and \<^verbatim>\<open>waiting\<close> (username to the list of notify callbacks of the callers
  that joined). JavaScript runs each callback to completion, so the queue changes in
  three kinds of atomic steps:
  \<^item> the synchronous body of \<^verbatim>\<open>enqueue(username, scrapeFunction)\<close>;
  \<^item> the \<^verbatim>\<open>.then\<close> / \<^verbatim>\<open>.catch\<close> callback of the chain, run when the scrape has produced
    its result or its error;
  \<^item> the \<^verbatim>\<open>.finally\<close> callback, after which the promise stored in the map is settled.

  A promise is named by the index of its execution in the list \<open>execs\<close> of all calls of
  \<^verbatim>\<open>scrapeFunction\<close> made so far. Both call sites pass an \<^verbatim>\<open>async\<close> function, so the call
  itself returns a promise and does not throw.
\<close>

datatype ('r, 'e) outcome = Fulfilled 'r | Rejected 'e

datatype ('r, 'e) exec_state =
    Running
  | Notified "('r, 'e) outcome"
  | Settled "('r, 'e) outcome"

datatype attach = Started nat | Joined nat

record ('r, 'e) scrape_queue =
  processing :: "string \<rightharpoonup> nat"
  waiting :: "string \<rightharpoonup> nat"
  execs :: "(string \<times> ('r, 'e) exec_state) list"
  calls :: "attach list"

definition new_queue :: "('r, 'e) scrape_queue" where
  "new_queue = \<lparr>processing = Map.empty, waiting = Map.empty, execs = [], calls = []\<rparr>"

text \<open>
  \<^verbatim>\<open>enqueue\<close>: when the map has the username, the caller pushes a notify callback (only
  their number is kept: the callbacks log and do nothing else) and awaits the existing
  promise; otherwise \<^verbatim>\<open>scrapeFunction(username)\<close> is called, and the chained promise is
  stored in the map and returned.
\<close>

definition enqueue :: "string \<Rightarrow> ('r, 'e) scrape_queue \<Rightarrow> ('r, 'e) scrape_queue" where
  "enqueue username q =
     (case processing q username of
        Some existingPromise \<Rightarrow>
          q\<lparr>waiting := (waiting q)(username \<mapsto>
                 (case waiting q username of None \<Rightarrow> 0 | Some n \<Rightarrow> n) + 1),
            calls := calls q @ [Joined existingPromise]\<rparr>
      | None \<Rightarrow>
          (let scrapePromise = length (execs q)
           in q\<lparr>processing := (processing q)(username \<mapsto> scrapePromise),
                execs := execs q @ [(username, Running)],
                calls := calls q @ [Started scrapePromise]\<rparr>))"

text \<open>
  The \<^verbatim>\<open>.then\<close> callback (on a result) and the \<^verbatim>\<open>.catch\<close> callback (on an error) do the
  same to the queue: they call the waiters' notify callbacks and delete the username
  from \<^verbatim>\<open>waiting\<close>; the outcome is passed on unchanged (\<^verbatim>\<open>return result\<close>, \<^verbatim>\<open>throw err\<close>).
\<close>

definition run_handlers ::
  "nat \<Rightarrow> ('r, 'e) outcome \<Rightarrow> ('r, 'e) scrape_queue \<Rightarrow> ('r, 'e) scrape_queue" where
  "run_handlers p out q =
     (if p < length (execs q) then
        (case execs q ! p of
           (username, Running) \<Rightarrow>
             q\<lparr>waiting := (waiting q)(username := None),
               execs := (execs q)[p := (username, Notified out)]\<rparr>
         | _ \<Rightarrow> q)
      else q)"

text \<open>The \<^verbatim>\<open>.finally\<close> callback deletes the username from \<^verbatim>\<open>processing\<close>; then the
  chained promise settles with the outcome it was handed.\<close>

definition run_finally :: "nat \<Rightarrow> ('r, 'e) scrape_queue \<Rightarrow> ('r, 'e) scrape_queue" where
  "run_finally p q =
     (if p < length (execs q) then
        (case execs q ! p of
           (username, Notified out) \<Rightarrow>
             q\<lparr>processing := (processing q)(username := None),
               execs := (execs q)[p := (username, Settled out)]\<rparr>
         | _ \<Rightarrow> q)
      else q)"

datatype ('r, 'e) queue_event =
    Enqueue string
  | Handlers nat "('r, 'e) outcome"
  | Finally nat

fun queue_step :: "('r, 'e) scrape_queue \<Rightarrow> ('r, 'e) queue_event \<Rightarrow> ('r, 'e) scrape_queue" where
  "queue_step q (Enqueue username) = enqueue username q"
| "queue_step q (Handlers p out) = run_handlers p out q"
| "queue_step q (Finally p) = run_finally p q"

definition run_queue :: "('r, 'e) queue_event list \<Rightarrow> ('r, 'e) scrape_queue" where
  "run_queue evs = foldl queue_step new_queue evs"

fun is_settled :: "('r, 'e) exec_state \<Rightarrow> bool" where
  "is_settled (Settled out) = True"
| "is_settled _ = False"

fun promise_of :: "attach \<Rightarrow> nat" where
  "promise_of (Started p) = p"
| "promise_of (Joined p) = p"

definition promise_outcome :: "('r, 'e) scrape_queue \<Rightarrow> nat \<Rightarrow> ('r, 'e) outcome option" where
  "promise_outcome q p =
     (if p < length (execs q) then
        (case snd (execs q ! p) of Settled out \<Rightarrow> Some out | _ \<Rightarrow> None)
      else None)"

text \<open>
  What the \<open>i\<close>-th call of \<^verbatim>\<open>enqueue\<close> gives its caller, once the promise has settled. The
  caller that started the scrape returns the chained promise itself; a caller that joined
  runs \<^verbatim>\<open>try { const result = await existingPromise; return result } catch (err) { throw err }\<close>.
\<close>

definition caller_outcome :: "('r, 'e) scrape_queue \<Rightarrow> nat \<Rightarrow> ('r, 'e) outcome option" where
  "caller_outcome q i =
     (if i < length (calls q) then
        (case calls q ! i of
           Started p \<Rightarrow> promise_outcome q p
         | Joined p \<Rightarrow>
             (case promise_outcome q p of
                None \<Rightarrow> None
              | Some (Fulfilled result) \<Rightarrow> Some (Fulfilled result)
              | Some (Rejected err) \<Rightarrow> Some (Rejected err)))
      else None)"

definition in_flight :: "('r, 'e) scrape_queue \<Rightarrow> string \<Rightarrow> nat \<Rightarrow> bool" where
  "in_flight q username p =
     (p < length (execs q) \<and> fst (execs q ! p) = username \<and> \<not> is_settled (snd (execs q ! p)))"


section \<open>JavaScript strings and regular expressions\<close>

text \<open>
  A JavaScript string is modelled as a HOL \<open>string\<close>: a list of characters, one per code
  unit, for code units below 256. \<^verbatim>\<open>s.length\<close> is \<open>length s\<close>. Each regular expression of
  the source is written out as the function that decides it; the expression stands in the
  comment of its function.
\<close>

definition is_space :: "char \<Rightarrow> bool" where
  \<comment> \<open>what \<^verbatim>\<open>trim()\<close> strips and \<^verbatim>\<open>\s\<close> matches: tab, LF, VT, FF, CR, space, NBSP\<close>
  "is_space c = (c \<in> set [CHR 0x09, CHR 0x0A, CHR 0x0B, CHR 0x0C, CHR 0x0D, CHR 0x20, CHR 0xA0])"

definition is_line_terminator :: "char \<Rightarrow> bool" where
  \<comment> \<open>what \<^verbatim>\<open>.\<close> does not match\<close>
  "is_line_terminator c = (c \<in> set [CHR 0x0A, CHR 0x0D])"

definition is_digit :: "char \<Rightarrow> bool" where
  "is_digit c = (c \<in> set ''0123456789'')"

definition is_word_char :: "char \<Rightarrow> bool" where
  \<comment> \<open>\<^verbatim>\<open>[\w_]\<close>\<close>
  "is_word_char c =
     (c \<in> set ''abcdefghijklmnopqrstuvwxyzABCDEFGHIJKLMNOPQRSTUVWXYZ0123456789_'')"

definition to_lower :: "char \<Rightarrow> char" where
  "to_lower c =
     (case map_of (zip ''ABCDEFGHIJKLMNOPQRSTUVWXYZ'' ''abcdefghijklmnopqrstuvwxyz'') c of
        Some l \<Rightarrow> l
      | None \<Rightarrow> c)"

definition trim :: "string \<Rightarrow> string" where
  "trim s = rev (dropWhile is_space (rev (dropWhile is_space s)))"

fun starts_with :: "string \<Rightarrow> string \<Rightarrow> bool" where
  \<comment> \<open>\<open>starts_with p s\<close> is \<^verbatim>\<open>s.startsWith(p)\<close>\<close>
  "starts_with [] s = True"
| "starts_with (p # ps) [] = False"
| "starts_with (p # ps) (c # cs) = (p = c \<and> starts_with ps cs)"

fun starts_with_ci :: "string \<Rightarrow> string \<Rightarrow> bool" where
  \<comment> \<open>the same under the \<^verbatim>\<open>i\<close> flag\<close>
  "starts_with_ci [] s = True"
| "starts_with_ci (p # ps) [] = False"
| "starts_with_ci (p # ps) (c # cs) = (to_lower p = to_lower c \<and> starts_with_ci ps cs)"

fun str_includes :: "string \<Rightarrow> string \<Rightarrow> bool" where
  \<comment> \<open>\<open>str_includes p s\<close> is \<^verbatim>\<open>s.includes(p)\<close>\<close>
  "str_includes p [] = (p = [])"
| "str_includes p (c # cs) = (starts_with p (c # cs) \<or> str_includes p cs)"

fun str_includes_ci :: "string \<Rightarrow> string \<Rightarrow> bool" where
  \<comment> \<open>\<^verbatim>\<open>/p/i.test(s)\<close> for a literal \<open>p\<close>\<close>
  "str_includes_ci p [] = (p = [])"
| "str_includes_ci p (c # cs) = (starts_with_ci p (c # cs) \<or> str_includes_ci p cs)"

definition equals_ci :: "string \<Rightarrow> string \<Rightarrow> bool" where
  "equals_ci p s = (map to_lower p = map to_lower s)"

fun search :: "(string \<Rightarrow> 'a option) \<Rightarrow> string \<Rightarrow> 'a option" where
  \<comment> \<open>the leftmost position at which an anchored matcher succeeds\<close>
  "search m [] = m []"
| "search m (c # cs) = (case m (c # cs) of Some r \<Rightarrow> Some r | None \<Rightarrow> search m cs)"

fun join :: "string \<Rightarrow> string list \<Rightarrow> string" where
  \<comment> \<open>\<open>join sep xs\<close> is \<^verbatim>\<open>xs.join(sep)\<close>\<close>
  "join sep [] = []"
| "join sep [x] = x"
| "join sep (x # y # ys) = x @ sep @ join sep (y # ys)"

fun replace_all :: "string \<Rightarrow> string \<Rightarrow> string \<Rightarrow> string" where
  \<comment> \<open>\<open>replace_all p r s\<close> is \<^verbatim>\<open>s.replace(/p/g, r)\<close> for a literal, non-empty \<open>p\<close>\<close>
  "replace_all p r [] = []"
| "replace_all p r (c # cs) =
     (if p \<noteq> [] \<and> starts_with p (c # cs)
      then r @ replace_all p r (drop (length p) (c # cs))
      else c # replace_all p r cs)"

text \<open>
  A JavaScript number read from a string of digits and dots by \<^verbatim>\<open>Number(...)\<close>: the value of
  the decimal literal, or \<open>NaN\<close> when the string is not one (two dots, or no digit). The value
  is kept exact; the rounding to a binary64 is not modelled.
\<close>

datatype number = NaN | Num rat

definition digit_val :: "char \<Rightarrow> nat" where
  "digit_val c = length (takeWhile (\<lambda>d. d \<noteq> c) ''0123456789'')"

definition digits_val :: "string \<Rightarrow> nat" where
  "digits_val ds = foldl (\<lambda>a c. 10 * a + digit_val c) 0 ds"

definition Number :: "string \<Rightarrow> number" where
  \<comment> \<open>for a string matched by \<^verbatim>\<open>[\d.]+\<close>\<close>
  "Number s =
     (let ip = takeWhile (\<lambda>c. c \<noteq> CHR ''.'') s;
          rest = dropWhile (\<lambda>c. c \<noteq> CHR ''.'') s
      in if rest = [] then (if ip = [] then NaN else Num (of_nat (digits_val ip)))
         else (let fp = tl rest
               in if CHR ''.'' \<in> set fp \<or> (ip = [] \<and> fp = []) then NaN
                  else Num (of_nat (digits_val ip) + of_nat (digits_val fp) / 10 ^ length fp)))"

section \<open>The document (DOM)\<close>

text \<open>
  The parsers work on the document that \<^verbatim>\<open>JSDOM\<close> or \<^verbatim>\<open>DOMParser\<close> builds from the markup. The
  HTML parser is a library; the model starts from its result: a tree of elements (tag name
  in lower case, attributes, children), text nodes and comments.
\<close>

datatype node =
    TextNode string
  | CommentNode string
  | Element string "(string \<times> string) list" "node list"

fun textContent :: "node \<Rightarrow> string" where
  \<comment> \<open>of an element: the text of all its descendant text nodes, in document order\<close>
  "textContent (TextNode s) = s"
| "textContent (CommentNode s) = []"
| "textContent (Element tag attrs children) = concat (map textContent children)"

fun elements :: "node \<Rightarrow> node list" where
  \<comment> \<open>the elements of a subtree in document order, the root included\<close>
  "elements (Element tag attrs children) =
     Element tag attrs children # concat (map elements children)"
| "elements n = []"

fun tagName :: "node \<Rightarrow> string" where
  "tagName (Element tag attrs children) = tag"
| "tagName n = []"

fun getAttribute :: "string \<Rightarrow> node \<Rightarrow> string option" where
  "getAttribute a (Element tag attrs children) = map_of attrs a"
| "getAttribute a n = None"



definition by_tags :: "string list \<Rightarrow> node \<Rightarrow> node list" where
  \<comment> \<open>\<^verbatim>\<open>doc.querySelectorAll("t1, t2, ...")\<close>\<close>
  "by_tags tags doc = filter (\<lambda>n. tagName n \<in> set tags) (elements doc)"

definition with_attr :: "string \<Rightarrow> node \<Rightarrow> node list" where
  \<comment> \<open>\<^verbatim>\<open>doc.querySelectorAll("[a]")\<close>\<close>
  "with_attr a doc = filter (\<lambda>n. getAttribute a n \<noteq> None) (elements doc)"

definition attr_or_empty :: "string \<Rightarrow> node \<Rightarrow> string" where
  \<comment> \<open>\<^verbatim>\<open>node.getAttribute(a) || ""\<close>\<close>
  "attr_or_empty a n = (case getAttribute a n of None \<Rightarrow> [] | Some v \<Rightarrow> v)"

definition first_of :: "'a list \<Rightarrow> 'a option" where
  \<comment> \<open>\<^verbatim>\<open>xs[0]\<close>, \<^verbatim>\<open>querySelector\<close> and \<^verbatim>\<open>find\<close>: the first element, or nothing\<close>
  "first_of xs = (case xs of [] \<Rightarrow> None | x # _ \<Rightarrow> Some x)"


section \<open>parseProfileSnapshot\<close>

fun lazy_dots :: "string \<Rightarrow> string \<Rightarrow> string option" where
  \<comment> \<open>\<^verbatim>\<open>(.+?)\<close> followed by the literal \<open>t\<close>: the shortest non-empty run of characters other
     than line terminators after which \<open>t\<close> stands\<close>
  "lazy_dots t [] = None"
| "lazy_dots t (c # cs) =
     (if is_line_terminator c then None
      else if starts_with t cs then Some [c]
      else map_option (Cons c) (lazy_dots t cs))"

definition url_at :: "string \<Rightarrow> string option" where
  \<comment> \<open>\<^verbatim>\<open>/url\((['"]?)(.+?)\1\)/i\<close> anchored at the start of \<open>s\<close>: group 2. The quote group is
     tried with a quote first and empty second.\<close>
  "url_at s =
     (if starts_with_ci ''url('' s then
        (let r = drop 4 s;
             quoted =
               (case r of
                  [] \<Rightarrow> None
                | q # r1 \<Rightarrow>
                    if q = CHR 0x27 \<or> q = CHR 0x22 then lazy_dots [q, CHR '')''] r1 else None)
         in case quoted of Some g \<Rightarrow> Some g | None \<Rightarrow> lazy_dots '')'' r)
      else None)"

definition extractAvatar :: "node \<Rightarrow> string option" where
  "extractAvatar doc =
     (let styledNode = first_of (filter (\<lambda>n. str_includes_ci ''background-image'' (attr_or_empty ''style'' n))
                                   (with_attr ''style'' doc));
          fromStyle =
            (case styledNode of
               None \<Rightarrow> None
             | Some n \<Rightarrow> map_option trim (search url_at (attr_or_empty ''style'' n)))
      in case fromStyle of
           Some u \<Rightarrow> Some u
         | None \<Rightarrow>
             (case first_of (filter (\<lambda>n. tagName n = ''img'') (with_attr ''src'' doc)) of
                Some imgNode \<Rightarrow> getAttribute ''src'' imgNode
              | None \<Rightarrow> None))"

definition handle_text :: "node \<Rightarrow> string" where
  \<comment> \<open>\<^verbatim>\<open>(node.textContent || "").trim()\<close>\<close>
  "handle_text n = trim (textContent n)"

definition sort_length :: "node \<Rightarrow> enat" where
  \<comment> \<open>\<^verbatim>\<open>a.textContent?.trim().length || Infinity\<close>\<close>
  "sort_length n = (if length (handle_text n) = 0 then \<infinity> else enat (length (handle_text n)))"

definition usernameNodes :: "node \<Rightarrow> node list" where
  \<comment> \<open>the \<^verbatim>\<open>span, div, p\<close> elements whose trimmed text matches \<^verbatim>\<open>/^@/\<close>, sorted by the length
     of that text; \<^verbatim>\<open>Array.prototype.sort\<close> is stable\<close>
  "usernameNodes doc =
     sort_key sort_length
       (filter (\<lambda>n. starts_with ''@'' (handle_text n)) (by_tags [''span'', ''div'', ''p''] doc))"

definition stoplist :: "string list" where
  \<comment> \<open>the alternatives of \<^verbatim>\<open>(Hello|Is|Continue|the|profile|correct|No|want|correct|it)\<close>\<close>
  "stoplist = [''Hello'', ''Is'', ''Continue'', ''the'', ''profile'', ''correct'', ''No'', ''want'',
               ''correct'', ''it'']"

definition username_match :: "string \<Rightarrow> string option" where
  \<comment> \<open>\<^verbatim>\<open>rawText.match(/^(@[\w_]+)/i)\<close>: group 1\<close>
  "username_match rawText =
     (case rawText of
        [] \<Rightarrow> None
      | c # cs \<Rightarrow>
          if c = CHR ''@'' \<and> takeWhile is_word_char cs \<noteq> []
          then Some (c # takeWhile is_word_char cs) else None)"

fun strip_stop_suffix :: "string \<Rightarrow> string" where
  \<comment> \<open>\<^verbatim>\<open>s.replace(/(Hello|Is|...|it)$/i, '')\<close>: the leftmost position from which the rest of
     the string is one of the words is where the string is cut\<close>
  "strip_stop_suffix [] = []"
| "strip_stop_suffix (c # cs) =
     (if list_ex (\<lambda>w. equals_ci w (c # cs)) stoplist then []
      else c # strip_stop_suffix cs)"

fun before_stop_word :: "string \<Rightarrow> string" where
  \<comment> \<open>\<^verbatim>\<open>s.split(/(Hello|Is|...|it)/i)[0]\<close>: the text before the first occurrence of a word\<close>
  "before_stop_word [] = []"
| "before_stop_word (c # cs) =
     (if list_ex (\<lambda>w. starts_with_ci w (c # cs)) stoplist then []
      else c # before_stop_word cs)"

definition cleanUsername :: "node option \<Rightarrow> string" where
  "cleanUsername usernameNode =
     (case usernameNode of
        None \<Rightarrow> []
      | Some n \<Rightarrow>
          (let rawText = handle_text n
           in case username_match rawText of
                Some m \<Rightarrow>
                  (let cleaned = strip_stop_suffix m
                   in if starts_with ''@'' cleaned then cleaned else m)
              | None \<Rightarrow>
                  if starts_with ''@'' rawText then before_stop_word rawText else []))"

definition width_percent_at :: "(char \<Rightarrow> bool) \<Rightarrow> string \<Rightarrow> string option" where
  \<comment> \<open>\<^verbatim>\<open>/width:\s*\d+%/i\<close> (with \<open>is_digit\<close>) and \<^verbatim>\<open>/width:\s*([\d.]+)%/i\<close> (with digits and
     dots), anchored at the start of \<open>s\<close>: the run before the percent sign\<close>
  "width_percent_at cls s =
     (if starts_with_ci ''width:'' s then
        (let r = dropWhile is_space (drop 6 s);
             run = takeWhile cls r
         in if run \<noteq> [] \<and> starts_with ''%'' (dropWhile cls r) then Some run else None)
      else None)"

definition is_digit_or_dot :: "char \<Rightarrow> bool" where
  "is_digit_or_dot c = (is_digit c \<or> c = CHR ''.'')"

definition progressNode :: "node \<Rightarrow> node option" where
  "progressNode doc =
     first_of (filter (\<lambda>n. search (width_percent_at is_digit) (attr_or_empty ''style'' n) \<noteq> None)
                 (with_attr ''style'' doc))"

definition progressPercent_of :: "node \<Rightarrow> number" where
  "progressPercent_of doc =
     (case progressNode doc of
        None \<Rightarrow> Num 55
      | Some n \<Rightarrow>
          (case search (width_percent_at is_digit_or_dot) (attr_or_empty ''style'' n) of
             Some m \<Rightarrow> Number m
           | None \<Rightarrow> Num 55))"

definition text_or :: "node option \<Rightarrow> string \<Rightarrow> string" where
  \<comment> \<open>\<^verbatim>\<open>(node?.textContent || dflt).trim()\<close>\<close>
  "text_or n dflt =
     trim (case n of
             None \<Rightarrow> dflt
           | Some e \<Rightarrow> if textContent e = [] then dflt else textContent e)"

definition nth_opt :: "'a list \<Rightarrow> nat \<Rightarrow> 'a option" where
  \<comment> \<open>\<^verbatim>\<open>xs[i]\<close>, which is \<^verbatim>\<open>undefined\<close> out of range\<close>
  "nth_opt xs i = (if i < length xs then Some (xs ! i) else None)"

record profile_snapshot =
  avatar :: "string option"
  progressPercent :: number
  username :: string
  greeting :: string
  question :: string
  primaryCta :: string
  secondaryCta :: string

definition questionNode :: "node \<Rightarrow> node option" where
  "questionNode doc =
     first_of (filter (\<lambda>n. str_includes_ci ''profile'' (trim (textContent n)))
                 (by_tags [''p'', ''span''] doc))"

text \<open>
  \<^verbatim>\<open>parseProfileSnapshot(htmlPath)\<close> reads the file and builds the document inside a
  \<^verbatim>\<open>try\<close>; when either throws it returns \<^verbatim>\<open>null\<close>. The argument of the model is the document,
  or \<open>None\<close> when none could be built.
\<close>

definition parseProfileSnapshot :: "node option \<Rightarrow> profile_snapshot option" where
  "parseProfileSnapshot loaded =
     (case loaded of
        None \<Rightarrow> None
      | Some doc \<Rightarrow>
          (let buttons = by_tags [''button''] doc
           in Some \<lparr>avatar = (case extractAvatar doc of None \<Rightarrow> None
                                | Some a \<Rightarrow> if a = [] then None else Some a),
                    progressPercent = progressPercent_of doc,
                    username = cleanUsername (first_of (usernameNodes doc)),
                    greeting = text_or (first_of (by_tags [''h1'', ''h2''] doc)) ''Hello'',
                    question = text_or (questionNode doc) ''Is this your profile?'',
                    primaryCta = text_or (nth_opt buttons 0) ''Continue, the profile is correct'',
                    secondaryCta = text_or (nth_opt buttons 1) ''No, I want to correct it''\<rparr>))"



text \<open>A document in which the parser finds none of its fields.\<close>

definition empty_profile_doc :: node where
  "empty_profile_doc =
     Element ''html'' [] [Element ''head'' [] [], Element ''body'' [] [Element ''div'' [(''style'', ''color: red'')] [TextNode ''Loading'']]]"


section \<open>parseProcessingSnapshot\<close>



















section \<open>parseFullReport: the avatar\<close>

text \<open>
  \<^verbatim>\<open>parseFullReport(html)\<close> parses the markup with \<^verbatim>\<open>DOMParser\<close> and looks for the profile
  picture by three methods, the first two on the document and the third on the markup
  itself. The model takes both the markup and the document built from it.
\<close>

fun replace_first :: "(string \<Rightarrow> nat option) \<Rightarrow> string \<Rightarrow> string" where
  \<comment> \<open>\<^verbatim>\<open>s.replace(re, '')\<close> without the \<^verbatim>\<open>g\<close> flag: the leftmost match is deleted; the anchored
     matcher gives the length of its match\<close>
  "replace_first m [] = []"
| "replace_first m (c # cs) =
     (case m (c # cs) of Some n \<Rightarrow> drop n (c # cs) | None \<Rightarrow> c # replace_first m cs)"

definition is_quote :: "char \<Rightarrow> bool" where
  \<comment> \<open>\<^verbatim>\<open>["']\<close>\<close>
  "is_quote c = (c = CHR 0x22 \<or> c = CHR 0x27)"

definition strip_leading :: "(char \<Rightarrow> bool) \<Rightarrow> string \<Rightarrow> string" where
  \<comment> \<open>\<^verbatim>\<open>s.replace(/^[...]/, '')\<close>\<close>
  "strip_leading cls s = (case s of [] \<Rightarrow> [] | c # cs \<Rightarrow> if cls c then cs else c # cs)"

definition strip_trailing :: "(char \<Rightarrow> bool) \<Rightarrow> string \<Rightarrow> string" where
  \<comment> \<open>\<^verbatim>\<open>s.replace(/[...]$/, '')\<close>\<close>
  "strip_trailing cls s = (if s \<noteq> [] \<and> cls (last s) then butlast s else s)"

definition strip_prefix :: "string \<Rightarrow> string \<Rightarrow> string" where
  \<comment> \<open>\<^verbatim>\<open>s.replace(/^p/, '')\<close> for a literal \<open>p\<close>\<close>
  "strip_prefix p s = (if starts_with p s then drop (length p) s else s)"

definition bg_url_at :: "string \<Rightarrow> string option" where
  \<comment> \<open>\<^verbatim>\<open>/background-image:\s*url\([^)]+\)/\<close> anchored at the start of \<open>s\<close>: the matched text\<close>
  "bg_url_at s =
     (if starts_with ''background-image:'' s then
        (let sp = takeWhile is_space (drop 17 s);
             r = dropWhile is_space (drop 17 s)
         in if starts_with ''url('' r then
              (let run = takeWhile (\<lambda>c. c \<noteq> CHR '')'') (drop 4 r)
               in if run \<noteq> [] \<and> starts_with '')'' (dropWhile (\<lambda>c. c \<noteq> CHR '')'') (drop 4 r))
                  then Some (''background-image:'' @ sp @ ''url('' @ run @ '')'')
                  else None)
            else None)
      else None)"

definition bg_prefix_at :: "string \<Rightarrow> nat option" where
  \<comment> \<open>\<^verbatim>\<open>/background-image:\s*url\(/\<close> anchored at the start of \<open>s\<close>: the length of the match\<close>
  "bg_prefix_at s =
     (if starts_with ''background-image:'' s \<and>
         starts_with ''url('' (dropWhile is_space (drop 17 s))
      then Some (17 + length (takeWhile is_space (drop 17 s)) + 4)
      else None)"

definition is_complete_base64 :: "string \<Rightarrow> bool" where
  \<comment> \<open>\<^verbatim>\<open>u.startsWith("data:image") && u.includes("base64,") && u.length > 200\<close>\<close>
  "is_complete_base64 u =
     (starts_with ''data:image'' u \<and> str_includes ''base64,'' u \<and> length u > 200)"

definition rounded_full_avatar :: "node \<Rightarrow> string option" where
  \<comment> \<open>the body of the loop of method 1, for one \<^verbatim>\<open>div\<close>\<close>
  "rounded_full_avatar d =
     (let style = attr_or_empty ''style'' d
      in if str_includes ''background-image'' style \<and> str_includes ''data:image'' style then
           (case search bg_url_at style of
              None \<Rightarrow> None
            | Some bgMatch \<Rightarrow>
                (let urlContent =
                       trim (replace_all ''&amp;'' ''&''
                         (replace_all ''&quot;'' [CHR 0x22]
                           (strip_trailing is_quote
                             (strip_leading is_quote
                               (strip_trailing (\<lambda>c. c = CHR '')'')
                                 (replace_first bg_prefix_at bgMatch))))))
                 in if is_complete_base64 urlContent then Some urlContent else None))
         else None)"

definition attr_includes :: "string \<Rightarrow> string \<Rightarrow> node \<Rightarrow> bool" where
  \<comment> \<open>the selector \<^verbatim>\<open>[a*='v']\<close>\<close>
  "attr_includes a v n = (case getAttribute a n of None \<Rightarrow> False | Some x \<Rightarrow> str_includes v x)"

definition method1 :: "node \<Rightarrow> string option" where
  \<comment> \<open>the first \<^verbatim>\<open>div[class*='rounded-full']\<close> that gives an avatar\<close>
  "method1 doc =
     first_of (List.map_filter rounded_full_avatar
                 (filter (\<lambda>n. tagName n = ''div'' \<and> attr_includes ''class'' ''rounded-full'' n)
                    (elements doc)))"

definition not_url_end :: "char \<Rightarrow> bool" where
  \<comment> \<open>\<^verbatim>\<open>[^"')]\<close>\<close>
  "not_url_end c = (c \<noteq> CHR 0x22 \<and> c \<noteq> CHR 0x27 \<and> c \<noteq> CHR '')'')"

definition pattern1_at :: "string \<Rightarrow> string option" where
  \<comment> \<open>\<^verbatim>\<open>/url\(["']?(&quot;)?(data:image\/[^"')]+)["')]?/\<close> anchored: group 2\<close>
  "pattern1_at s =
     (if starts_with ''url('' s then
        (let r = strip_leading is_quote (drop 4 s);
             r2 = strip_prefix ''&quot;'' r
         in if starts_with ''data:image/'' r2 \<and> takeWhile not_url_end (drop 11 r2) \<noteq> []
            then Some (''data:image/'' @ takeWhile not_url_end (drop 11 r2))
            else None)
      else None)"

definition pattern2_at :: "string \<Rightarrow> string option" where
  \<comment> \<open>\<^verbatim>\<open>/background-image:\s*url\(["']?(data:image[^"')]+)["')]?/\<close> anchored: group 1\<close>
  "pattern2_at s =
     (if starts_with ''background-image:'' s \<and>
         starts_with ''url('' (dropWhile is_space (drop 17 s)) then
        (let r = strip_leading is_quote (drop 4 (dropWhile is_space (drop 17 s)))
         in if starts_with ''data:image'' r \<and> takeWhile not_url_end (drop 10 r) \<noteq> []
            then Some (''data:image'' @ takeWhile not_url_end (drop 10 r))
            else None)
      else None)"

definition pattern3_at :: "string \<Rightarrow> string option" where
  \<comment> \<open>\<^verbatim>\<open>/url\(&quot;(data:image[^&]+)&quot;\)/\<close> anchored: group 1\<close>
  "pattern3_at s =
     (if starts_with ''url(&quot;data:image'' s then
        (let run = takeWhile (\<lambda>c. c \<noteq> CHR ''&'') (drop 20 s)
         in if run \<noteq> [] \<and> starts_with ''&quot;)'' (dropWhile (\<lambda>c. c \<noteq> CHR ''&'') (drop 20 s))
            then Some (''data:image'' @ run)
            else None)
      else None)"

definition clean_base64Url :: "string \<Rightarrow> string" where
  \<comment> \<open>the chain of \<^verbatim>\<open>replace\<close> calls of method 2\<close>
  "clean_base64Url g =
     strip_trailing is_quote
       (strip_leading is_quote
         (strip_trailing (\<lambda>c. c = CHR '')'')
           (strip_prefix ''url(''
             (replace_all ''&amp;'' ''&'' (replace_all ''&quot;'' [] g)))))"

definition background_avatar :: "node \<Rightarrow> string option" where
  \<comment> \<open>the body of the loop of method 2, for one element: the first of the three patterns
     that matches and gives a complete image\<close>
  "background_avatar el =
     (let style = attr_or_empty ''style'' el
      in if str_includes ''data:image'' style then
           first_of (List.map_filter
             (\<lambda>pattern. case search pattern style of
                           None \<Rightarrow> None
                         | Some g \<Rightarrow> if is_complete_base64 (clean_base64Url g)
                                     then Some (clean_base64Url g) else None)
             [pattern1_at, pattern2_at, pattern3_at])
         else None)"

definition method2 :: "node \<Rightarrow> string option" where
  \<comment> \<open>the first element matching \<^verbatim>\<open>[style*='background-image']\<close> that gives an avatar\<close>
  "method2 doc =
     first_of (List.map_filter background_avatar
                 (filter (attr_includes ''style'' ''background-image'') (elements doc)))"

definition is_base64_char :: "char \<Rightarrow> bool" where
  \<comment> \<open>\<^verbatim>\<open>[A-Za-z0-9+/=]\<close>\<close>
  "is_base64_char c =
     (c \<in> set ''ABCDEFGHIJKLMNOPQRSTUVWXYZabcdefghijklmnopqrstuvwxyz0123456789+/='')"

definition base64_token_at :: "string \<Rightarrow> string option" where
  \<comment> \<open>\<^verbatim>\<open>/data:image\/[^;]+;base64,[A-Za-z0-9+/=]{200,}/\<close> anchored: the matched text\<close>
  "base64_token_at s =
     (if starts_with ''data:image/'' s then
        (let mime = takeWhile (\<lambda>c. c \<noteq> CHR '';'') (drop 11 s);
             r = dropWhile (\<lambda>c. c \<noteq> CHR '';'') (drop 11 s)
         in if mime \<noteq> [] \<and> starts_with '';base64,'' r \<and>
               length (takeWhile is_base64_char (drop 8 r)) \<ge> 200
            then Some (''data:image/'' @ mime @ '';base64,'' @ takeWhile is_base64_char (drop 8 r))
            else None)
      else None)"

function matchAll :: "string \<Rightarrow> string list" where
  \<comment> \<open>\<^verbatim>\<open>html.matchAll(/.../g)\<close>: the matches from left to right, each search starting where
     the match before it ended\<close>
  "matchAll [] = []"
| "matchAll (c # cs) =
     (case base64_token_at (c # cs) of
        Some m \<Rightarrow> m # matchAll (drop (length m) (c # cs))
      | None \<Rightarrow> matchAll cs)"
  by pat_completeness auto
termination
  by (relation "measure length") (auto simp: base64_token_at_def Let_def split: if_splits)

definition method3 :: "string \<Rightarrow> string option" where
  \<comment> \<open>the first match longer than 500 characters\<close>
  "method3 html = first_of (filter (\<lambda>m. length m > 500) (matchAll html))"

definition fullReportAvatar :: "string \<Rightarrow> node \<Rightarrow> string option" where
  "fullReportAvatar html doc =
     (let avatar = method1 doc;
          avatar = (if avatar = None then method2 doc else avatar);
          avatar = (if avatar = None \<and> str_includes ''data:image'' html then method3 html
                    else avatar)
      in avatar)"

text \<open>Markup with one embedded image in an \<^verbatim>\<open>img\<close> element, and its document.\<close>

definition image_token :: "string \<Rightarrow> string" where
  "image_token payload = ''data:image/png;base64,'' @ payload"

definition image_html :: "string \<Rightarrow> string" where
  "image_html payload = ''<img src='' @ [CHR 0x22] @ image_token payload @ [CHR 0x22] @ ''>''"

definition image_doc :: "string \<Rightarrow> node" where
  "image_doc payload =
     Element ''html'' []
       [Element ''head'' [] [],
        Element ''body'' [] [Element ''img'' [(''src'', image_token payload)] []]]"

text \<open>A document with an avatar container: a \<^verbatim>\<open>div\<close> of class \<^verbatim>\<open>rounded-full\<close> whose inline
  style holds the image; and a document without any image.\<close>

definition avatar_div_doc :: "string \<Rightarrow> node" where
  "avatar_div_doc payload =
     Element ''html'' []
       [Element ''body'' []
          [Element ''div''
             [(''class'', ''w-16 h-16 rounded-full''),
              (''style'', ''background-image: url('' @ [CHR 0x22] @ image_token payload
                            @ [CHR 0x22] @ '')'')] []]]"

definition plain_doc :: node where
  "plain_doc = Element ''html'' [] [Element ''body'' [] [Element ''p'' [(''style'', ''color: red'')] [TextNode ''No picture'']]]"

definition plain_html :: string where
  "plain_html = ''<p style='' @ [CHR 0x22] @ ''color: red'' @ [CHR 0x22] @ ''>No picture</p>''"

text \<open>A document whose image sits in the inline style of a \<^verbatim>\<open>div\<close> without the class hint.\<close>

definition styled_div_doc :: "string \<Rightarrow> node" where
  "styled_div_doc payload =
     Element ''html'' []
       [Element ''body'' []
          [Element ''div''
             [(''class'', ''profile-picture''),
              (''style'', ''background-image: url('' @ [CHR 0x22] @ image_token payload
                            @ [CHR 0x22] @ '')'')] []]]"

definition styled_div_html :: "string \<Rightarrow> string" where
  "styled_div_html payload =
     ''<div class='' @ [CHR 0x22] @ ''profile-picture'' @ [CHR 0x22] @ '' style='' @ [CHR 0x22]
       @ ''background-image: url(&quot;'' @ image_token payload @ ''&quot;)'' @ [CHR 0x22]
       @ ''></div>''"


section \<open>The snapshot store (MongoDB collection \<^verbatim>\<open>snapshots\<close>)\<close>

text \<open>
  The collection is a list of documents in insertion order. Times are milliseconds since
  the epoch, as \<^verbatim>\<open>Date\<close> holds them. The driver calls the source makes are modelled by what
  MongoDB documents for them: \<^verbatim>\<open>updateOne\<close> changes the first document that matches the
  filter, and with \<^verbatim>\<open>upsert\<close> inserts a new one when none matches, applying \<^verbatim>\<open>$setOnInsert\<close>
  only then; \<^verbatim>\<open>findOne\<close> returns the first match, after sorting when a sort is given.
  Every function first calls \<^verbatim>\<open>connectDB()\<close>; \<open>up\<close> says whether the store can be reached at
  that call. When it cannot (no connection, or the driver throws), the function returns
  \<^verbatim>\<open>null\<close> and the collection stays as it is.
\<close>

record step_meta =
  meta_fields :: "(string \<times> string option) list"
  meta_capturedAt :: nat

record step_data =
  sd_name :: string
  sd_html :: string
  sd_capturedAt :: nat
  sd_meta :: step_meta

record card =
  card_username :: "string option"
  card_image :: "string option"

datatype run_status = Processing | Completed

record snapshot_doc =
  doc_id :: string
  instagramUsername :: string
  runId :: string
  createdAt :: nat
  status :: run_status
  steps :: "step_data list"
  cards :: "card list option"
  completedAt :: "nat option"

type_synonym collection = "snapshot_doc list"




fun update_first :: "('a \<Rightarrow> bool) \<Rightarrow> ('a \<Rightarrow> 'a) \<Rightarrow> 'a list \<Rightarrow> 'a list" where
  \<comment> \<open>\<^verbatim>\<open>updateOne\<close>: the first match is changed\<close>
  "update_first P f [] = []"
| "update_first P f (d # ds) = (if P d then f d # ds else d # update_first P f ds)"

definition is_run :: "string \<Rightarrow> string \<Rightarrow> snapshot_doc \<Rightarrow> bool" where
  \<comment> \<open>the filter \<^verbatim>\<open>{ instagramUsername, runId }\<close>\<close>
  "is_run user rid d = (instagramUsername d = user \<and> runId d = rid)"

definition saveSnapshotStep ::
  "bool \<Rightarrow> nat \<Rightarrow> string \<Rightarrow> collection \<Rightarrow> string \<Rightarrow> string \<Rightarrow> string \<Rightarrow> string
     \<Rightarrow> (string \<times> string option) list \<Rightarrow> (step_data \<times> string) option \<times> collection" where
  \<comment> \<open>\<open>now\<close> is what \<^verbatim>\<open>new Date()\<close> reads during the call, \<open>oid\<close> the \<^verbatim>\<open>_id\<close> the server gives
     a document this call inserts; the result is \<^verbatim>\<open>{ stepData, snapshotId }\<close>\<close>
  "saveSnapshotStep up now oid coll user rid stepName html meta =
     (if \<not> up then (None, coll)
      else
        (let stepData = \<lparr>sd_name = stepName, sd_html = html, sd_capturedAt = now,
                          sd_meta = \<lparr>meta_fields = meta, meta_capturedAt = now\<rparr>\<rparr>
         in case find (is_run user rid) coll of
              Some d \<Rightarrow>
                (Some (stepData, doc_id d),
                 update_first (is_run user rid) (\<lambda>d. d\<lparr>steps := steps d @ [stepData]\<rparr>) coll)
            | None \<Rightarrow>
                (Some (stepData, oid),
                 coll @ [\<lparr>doc_id = oid, instagramUsername = user, runId = rid, createdAt = now,
                           status = Processing, steps = [stepData], cards = None,
                           completedAt = None\<rparr>])))"

definition saveSnapshotResult ::
  "bool \<Rightarrow> nat \<Rightarrow> collection \<Rightarrow> string \<Rightarrow> string \<Rightarrow> card list \<Rightarrow> bool option \<times> collection" where
  "saveSnapshotResult up now coll user rid cs =
     (if \<not> up then (None, coll)
      else (Some True,
            update_first (is_run user rid)
              (\<lambda>d. d\<lparr>cards := Some cs, status := Completed, completedAt := Some now\<rparr>) coll))"


definition getSnapshotByRunId :: "bool \<Rightarrow> collection \<Rightarrow> string \<Rightarrow> string \<Rightarrow> snapshot_doc option" where
  "getSnapshotByRunId up coll user rid =
     (if \<not> up then None
      else find (\<lambda>d. is_run user rid d \<and> status d = Completed) coll)"



section \<open>The routes that read the store\<close>

record step_entry =
  se_name :: string
  se_htmlPath :: string
  se_meta :: step_meta

text \<open>
  What \<^verbatim>\<open>/api/stalkers\<close> sends with \<^verbatim>\<open>res.json\<close>: the value \<^verbatim>\<open>scrape\<close> returns, or the cached
  answer built from a stored document. A field that the object does not have is \<open>None\<close>.
  \<^verbatim>\<open>totalTime\<close> is kept in milliseconds (the source prints it in seconds with two decimals).
\<close>

record api_result =
  r_runId :: string
  r_snapshotId :: "string option"
  r_steps :: "step_entry list"
  r_cards :: "card list"
  r_totalTime :: "nat option"
  r_cached :: "bool option"

definition snapshot_path :: "string \<Rightarrow> string \<Rightarrow> string" where
  \<comment> \<open>\<^verbatim>\<open>`/api/snapshots/${id}/${name}`\<close>\<close>
  "snapshot_path sid stepName = ''/api/snapshots/'' @ sid @ ''/'' @ stepName"



datatype http_response = SendHtml string | Status404 string | Status500 string




section \<open>The scraper (\<^verbatim>\<open>scrape\<close>)\<close>

text \<open>
  \<^verbatim>\<open>scrape(username, onStep)\<close> drives a browser page through the stages of the site. What the
  site does is outside the program; the record \<open>site\<close> lists, for each call the scraper makes
  on the page, what that call returns or the message of the error it throws. \<^verbatim>\<open>captureStep\<close>
  numbers its calls with \<^verbatim>\<open>stepIndex\<close>; the page content, the clock and the reachability of
  the store at a capture are given per number.
\<close>

record input_info =
  in_type :: string
  in_placeholder :: string
  in_name :: string
  in_id :: string
  in_className :: string

record button_info =
  btn_text :: string
  btn_visible :: bool

record rect =
  rect_width :: rat
  rect_height :: rat

record site =
  launch_error :: "string option"
  start_time :: nat
  goto_error :: "string option"
  page_url :: string
  reveal_error :: "string option"
  reveal_buttons :: "string list"
  input_error :: "string option"
  entry_inputs :: "input_info list"
  continue_error :: "string option"
  analyzing_seen :: bool
  displayed_handle :: "string option option"
  confirm_text_visible :: "string \<Rightarrow> bool"
  confirm_buttons :: "button_info list"
  confirm_click_error :: "string option"
  processing_seen :: bool
  poll_cards :: "nat \<Rightarrow> rect list option"
  poll_ms :: "nat \<Rightarrow> nat"
  extract_error :: "string option"
  cards_data :: "card list"
  full_report_clicked :: bool
  close_error :: "string option"
  catch_close_error :: "string option"
  page_content :: "nat \<Rightarrow> string option"
  db_up :: "nat \<Rightarrow> bool"
  save_time :: "nat \<Rightarrow> nat"
  entry_time :: "nat \<Rightarrow> nat"
  object_id :: string
  result_db_up :: bool
  end_time :: nat

text \<open>
  The fields, in the order of the calls: \<^verbatim>\<open>launchBrowser\<close> and \<^verbatim>\<open>newPage\<close>; \<^verbatim>\<open>Date.now()\<close> at
  the start; \<^verbatim>\<open>page.goto\<close> and \<^verbatim>\<open>page.url()\<close>; waiting for and clicking the Reveal Stalkers
  button, and the text of every button on the page when that fails; waiting for and filling
  the input, and the inputs on the page when that fails; waiting for and clicking the
  Continue button; whether the Analyzing text shows within its timeout; the text of the
  displayed handle (\<open>None\<close>: the locator throws); for each button text tried, whether such a
  button becomes visible; the buttons on the page then, with their visibility; the click on
  the button found; whether the Processing text shows; for each tick of the polling loop,
  the rectangles of the elements matching the card selector (\<open>None\<close>: \<^verbatim>\<open>page.evaluate\<close>
  throws) and the milliseconds the tick takes on top of the timer; the card extraction;
  whether the View Full Report button was found and clicked; \<^verbatim>\<open>browser.close()\<close> at the end
  of the \<^verbatim>\<open>try\<close> block, and in the \<^verbatim>\<open>catch\<close> block.
\<close>

record run_state =
  rs_steps :: "step_entry list"
  stepIndex :: nat
  rs_snapshotId :: "string option"
  emitted :: "step_entry list"
  store :: collection

text \<open>\<open>emitted\<close> lists the calls of the \<^verbatim>\<open>onStep\<close> callback; \<open>onStep\<close> says whether the caller
  passed one (the server's callback writes to the event stream and does not throw).\<close>

definition captureStep ::
  "site \<Rightarrow> bool \<Rightarrow> string \<Rightarrow> string \<Rightarrow> string \<Rightarrow> (string \<times> string option) list \<Rightarrow> run_state
     \<Rightarrow> step_entry option \<times> run_state" where
  "captureStep site onStep user rid stepName meta s =
     (let k = stepIndex s + 1;
          s1 = s\<lparr>stepIndex := k\<rparr>
      in case page_content site k of
           None \<Rightarrow> (None, s1)
         | Some html \<Rightarrow>
             (case saveSnapshotStep (db_up site k) (save_time site k) (object_id site) (store s1)
                     user rid stepName html meta of
                (None, coll) \<Rightarrow> (None, s1\<lparr>store := coll\<rparr>)
              | (Some (stepData, sid), coll) \<Rightarrow>
                  if sid = [] then (None, s1\<lparr>store := coll\<rparr>)
                  else
                    (let entry = \<lparr>se_name = stepName,
                                  se_htmlPath = snapshot_path sid stepName,
                                  se_meta = \<lparr>meta_fields = meta,
                                             meta_capturedAt = entry_time site k\<rparr>\<rparr>
                     in (Some entry,
                         s1\<lparr>store := coll,
                            rs_snapshotId :=
                              (case rs_snapshotId s1 of
                                 None \<Rightarrow> Some sid
                               | Some x \<Rightarrow> if x = [] then Some sid else Some x),
                            rs_steps := rs_steps s1 @ [entry],
                            emitted := (if onStep then emitted s1 @ [entry] else emitted s1)\<rparr>))))"

subsection \<open>Error messages\<close>

definition hex_digit :: "nat \<Rightarrow> char" where
  "hex_digit n = ''0123456789abcdef'' ! (n mod 16)"

definition json_escape :: "char \<Rightarrow> string" where
  \<comment> \<open>how \<^verbatim>\<open>JSON.stringify\<close> writes one character of a string\<close>
  "json_escape c =
     (if c = CHR 0x22 then [CHR 0x5C, CHR 0x22]
      else if c = CHR 0x5C then [CHR 0x5C, CHR 0x5C]
      else if c = CHR 0x08 then [CHR 0x5C, CHR ''b'']
      else if c = CHR 0x0C then [CHR 0x5C, CHR ''f'']
      else if c = CHR 0x0A then [CHR 0x5C, CHR ''n'']
      else if c = CHR 0x0D then [CHR 0x5C, CHR ''r'']
      else if c = CHR 0x09 then [CHR 0x5C, CHR ''t'']
      else if (of_char c :: nat) < 32
        then [CHR 0x5C, CHR ''u'', CHR ''0'', CHR ''0'',
              hex_digit ((of_char c :: nat) div 16), hex_digit (of_char c :: nat)]
      else [c])"

definition json_string :: "string \<Rightarrow> string" where
  "json_string s = [CHR 0x22] @ concat (map json_escape s) @ [CHR 0x22]"

definition json_input :: "input_info \<Rightarrow> string" where
  "json_input i =
     ''{'' @ join '',''
        [json_string ''type'' @ '':'' @ json_string (in_type i),
         json_string ''placeholder'' @ '':'' @ json_string (in_placeholder i),
         json_string ''name'' @ '':'' @ json_string (in_name i),
         json_string ''id'' @ '':'' @ json_string (in_id i),
         json_string ''className'' @ '':'' @ json_string (in_className i)] @ ''}''"

definition json_inputs :: "input_info list \<Rightarrow> string" where
  \<comment> \<open>\<^verbatim>\<open>JSON.stringify(inputs)\<close>\<close>
  "json_inputs inputs = ''['' @ join '','' (map json_input inputs) @ '']''"

definition reveal_message :: "string list \<Rightarrow> string" where
  \<comment> \<open>\<^verbatim>\<open>`Could not find "Reveal Stalkers" button. Available buttons: ${buttons.join(', ')}`\<close>,
     the buttons being the non-empty trimmed texts\<close>
  "reveal_message texts =
     ''Could not find '' @ [CHR 0x22] @ ''Reveal Stalkers'' @ [CHR 0x22]
       @ '' button. Available buttons: ''
       @ join '', '' (filter (\<lambda>t. t \<noteq> []) (map trim texts))"

definition input_message :: "input_info list \<Rightarrow> string" where
  "input_message inputs = ''Could not find username input. Available inputs: '' @ json_inputs inputs"

subsection \<open>The stages\<close>

text \<open>A stage takes the state of the run and gives the message of the error it throws, if
  any, and the state it leaves.\<close>

type_synonym stage_result = "string option \<times> run_state"

definition stage_landing :: "site \<Rightarrow> bool \<Rightarrow> string \<Rightarrow> string \<Rightarrow> run_state \<Rightarrow> stage_result" where
  "stage_landing site onStep user rid s =
     (case goto_error site of
        Some e \<Rightarrow> (Some e, s)
      | None \<Rightarrow> (None, snd (captureStep site onStep user rid ''landing''
                              [(''url'', Some (page_url site))] s)))"

definition stage_reveal :: "site \<Rightarrow> bool \<Rightarrow> string \<Rightarrow> string \<Rightarrow> run_state \<Rightarrow> stage_result" where
  "stage_reveal site onStep user rid s =
     (case reveal_error site of
        Some e \<Rightarrow> (Some (reveal_message (reveal_buttons site)), s)
      | None \<Rightarrow> (None, s))"

definition stage_username :: "site \<Rightarrow> bool \<Rightarrow> string \<Rightarrow> string \<Rightarrow> run_state \<Rightarrow> stage_result" where
  "stage_username site onStep user rid s =
     (case input_error site of
        Some e \<Rightarrow> (Some (input_message (entry_inputs site)), s)
      | None \<Rightarrow> (None, snd (captureStep site onStep user rid ''username-entry''
                              [(''username'', Some user)] s)))"

definition stage_continue :: "site \<Rightarrow> bool \<Rightarrow> string \<Rightarrow> string \<Rightarrow> run_state \<Rightarrow> stage_result" where
  "stage_continue site onStep user rid s =
     (case continue_error site of
        Some e \<Rightarrow> (Some (''Could not find Continue button: '' @ e), s)
      | None \<Rightarrow>
          (None, if analyzing_seen site
                 then snd (captureStep site onStep user rid ''analyzing'' [] s) else s))"

definition buttonTexts :: "string list" where
  "buttonTexts = [''Continue, the profile is correct'', ''profile is correct'', ''Continue'']"

definition confirm_button_found :: "site \<Rightarrow> bool" where
  \<comment> \<open>a button with one of the texts becomes visible, or else some button is visible\<close>
  "confirm_button_found site =
     (list_ex (confirm_text_visible site) buttonTexts \<or> list_ex btn_visible (confirm_buttons site))"

definition stage_confirm :: "site \<Rightarrow> bool \<Rightarrow> string \<Rightarrow> string \<Rightarrow> run_state \<Rightarrow> stage_result" where
  "stage_confirm site onStep user rid s =
     (let s1 = snd (case displayed_handle site of
                      None \<Rightarrow> captureStep site onStep user rid ''profile-confirm'' [] s
                    | Some h \<Rightarrow>
                        captureStep site onStep user rid ''profile-confirm''
                          [(''displayedHandle'',
                            case h of None \<Rightarrow> None
                                    | Some t \<Rightarrow> if trim t = [] then None else Some (trim t))] s);
          err = (if confirm_button_found site then confirm_click_error site
                 else Some ''No profile confirmation button found'')
      in case err of
           None \<Rightarrow> (None, s1)
         | Some m \<Rightarrow>
             (Some (''Could not find profile confirmation button: '' @ m),
              snd (captureStep site onStep user rid ''profile-confirm-error'' [] s1)))"

definition stage_processing :: "site \<Rightarrow> bool \<Rightarrow> string \<Rightarrow> string \<Rightarrow> run_state \<Rightarrow> stage_result" where
  "stage_processing site onStep user rid s =
     (None, if processing_seen site
            then snd (captureStep site onStep user rid ''processing'' [] s) else s)"

definition maxWaitTime :: nat where
  "maxWaitTime = 60000"

definition pollInterval :: nat where
  "pollInterval = 100"

fun any_visible :: "rect list \<Rightarrow> bool" where
  \<comment> \<open>the \<^verbatim>\<open>for\<close> loop over the cards\<close>
  "any_visible [] = False"
| "any_visible (r # rs) = (if rect_width r > 0 \<and> rect_height r > 0 then True else any_visible rs)"

definition cards_ready :: "rect list option \<Rightarrow> bool" where
  \<comment> \<open>one tick: the result of \<^verbatim>\<open>page.evaluate\<close>, taken as false when it throws\<close>
  "cards_ready r =
     (case r of
        None \<Rightarrow> False
      | Some cs \<Rightarrow> if length cs = 0 then False else any_visible cs)"

text \<open>
  The polling loop. \<open>elapsed\<close> is \<^verbatim>\<open>Date.now() - analysisStartTime\<close> at the loop test and \<open>k\<close>
  the number of ticks done. A tick that does not find the cards is followed by
  \<^verbatim>\<open>page.waitForTimeout(pollInterval)\<close>. The result is \<^verbatim>\<open>cardsFound\<close>, the number of ticks done
  and the elapsed time at the last loop test.
\<close>

function poll :: "site \<Rightarrow> nat \<Rightarrow> nat \<Rightarrow> bool \<times> nat \<times> nat" where
  "poll site k elapsed =
     (if elapsed < maxWaitTime then
        (if cards_ready (poll_cards site k) then (True, Suc k, elapsed)
         else poll site (Suc k) (elapsed + poll_ms site k + pollInterval))
      else (False, k, elapsed))"
  by pat_completeness auto
termination
  by (relation "measure (\<lambda>(site, k, elapsed). maxWaitTime - elapsed)")
     (auto simp: pollInterval_def)

declare poll.simps [simp del]

text \<open>The elapsed time at which tick \<open>k\<close> starts, when no tick before it found the cards.\<close>

primrec tick_start :: "site \<Rightarrow> nat \<Rightarrow> nat" where
  "tick_start site 0 = 0"
| "tick_start site (Suc k) = tick_start site k + poll_ms site k + pollInterval"

definition stage_results_wait :: "site \<Rightarrow> bool \<Rightarrow> string \<Rightarrow> string \<Rightarrow> run_state \<Rightarrow> stage_result" where
  "stage_results_wait site onStep user rid s =
     (if fst (poll site 0 0) then (None, s)
      else (Some ''Cards did not appear within timeout period'', s))"

definition stage_results :: "site \<Rightarrow> bool \<Rightarrow> string \<Rightarrow> string \<Rightarrow> run_state \<Rightarrow> stage_result" where
  "stage_results site onStep user rid s =
     (extract_error site, snd (captureStep site onStep user rid ''results'' [] s))"

definition stage_full_report :: "site \<Rightarrow> bool \<Rightarrow> string \<Rightarrow> string \<Rightarrow> run_state \<Rightarrow> stage_result" where
  "stage_full_report site onStep user rid s =
     (close_error site,
      if full_report_clicked site
      then snd (captureStep site onStep user rid ''full-report'' [] s) else s)"

fun run_stages :: "(run_state \<Rightarrow> stage_result) list \<Rightarrow> run_state \<Rightarrow> stage_result" where
  \<comment> \<open>the statements of the \<^verbatim>\<open>try\<close> block in sequence: the first error ends it\<close>
  "run_stages [] s = (None, s)"
| "run_stages (f # fs) s =
     (case f s of
        (Some e, s') \<Rightarrow> (Some e, s')
      | (None, s') \<Rightarrow> run_stages fs s')"

function decimal :: "nat \<Rightarrow> string" where
  \<comment> \<open>\<^verbatim>\<open>`${n}`\<close>\<close>
  "decimal n = (if n < 10 then [''0123456789'' ! n]
               else decimal (n div 10) @ [''0123456789'' ! (n mod 10)])"
  by pat_completeness auto
termination
  by (relation "measure id") auto

declare decimal.simps [simp del]

definition stages ::
  "site \<Rightarrow> bool \<Rightarrow> string \<Rightarrow> string \<Rightarrow> (run_state \<Rightarrow> stage_result) list" where
  "stages site onStep user rid =
     [stage_landing site onStep user rid,
      stage_reveal site onStep user rid,
      stage_username site onStep user rid,
      stage_continue site onStep user rid,
      stage_confirm site onStep user rid,
      stage_processing site onStep user rid,
      stage_results_wait site onStep user rid,
      stage_results site onStep user rid,
      stage_full_report site onStep user rid]"

text \<open>
  \<^verbatim>\<open>scrape\<close>: the result is the error message (the promise is rejected with that error) or
  the returned object, and the state the run leaves, the store in it. The \<^verbatim>\<open>catch\<close> block
  closes the browser and throws the error again; when closing throws, that error takes its
  place. After the stages the
  result is saved with \<^verbatim>\<open>saveSnapshotResult\<close>; the \<^verbatim>\<open>snapshotId\<close> not known by then is looked up.
  Writing the debug file (only with \<^verbatim>\<open>DEBUG_SCRAPE\<close>) and the error screenshot are left out.
\<close>

definition scrape :: "site \<Rightarrow> bool \<Rightarrow> string \<Rightarrow> collection \<Rightarrow> (string + api_result) \<times> run_state" where
  "scrape site onStep user coll =
     (let rid = decimal (start_time site);
          s0 = \<lparr>rs_steps = [], stepIndex = 0, rs_snapshotId = None, emitted = [], store = coll\<rparr>
      in case launch_error site of
           Some e \<Rightarrow> (Inl e, s0)
         | None \<Rightarrow>
             (case run_stages (stages site onStep user rid) s0 of
                (Some e, s) \<Rightarrow>
                  (Inl (case catch_close_error site of Some c \<Rightarrow> c | None \<Rightarrow> e), s)
              | (None, s) \<Rightarrow>
                  (let coll' = snd (saveSnapshotResult (result_db_up site) (end_time site) (store s)
                                      user rid (cards_data site));
                       sid = (case rs_snapshotId s of
                                Some x \<Rightarrow> if x = [] then
                                            map_option doc_id (getSnapshotByRunId (result_db_up site) coll' user rid)
                                          else Some x
                              | None \<Rightarrow>
                                  map_option doc_id (getSnapshotByRunId (result_db_up site) coll' user rid))
                   in (Inr \<lparr>r_runId = rid,
                            r_snapshotId = (case sid of None \<Rightarrow> None
                                            | Some x \<Rightarrow> if x = [] then None else Some x),
                            r_steps = rs_steps s,
                            r_cards = cards_data site,
                            r_totalTime = Some (end_time site - start_time site),
                            r_cached = None\<rparr>,
                       s\<lparr>store := coll', rs_snapshotId := sid\<rparr>))))"

text \<open>
  A site on which the run succeeds: every element is found, the cards show at the fourth
  tick of the polling loop, and one card is extracted. And the same site with cards that
  never show.
\<close>

definition demo_site :: site where
  "demo_site =
     \<lparr>launch_error = None, start_time = 1700000000000, goto_error = None,
      page_url = ''https://oseguidorsecreto.com/pv-en'',
      reveal_error = None, reveal_buttons = [''Reveal Stalkers''],
      input_error = None, entry_inputs = [],
      continue_error = None, analyzing_seen = True,
      displayed_handle = Some (Some ''@alice''),
      confirm_text_visible = (\<lambda>t. t = ''Continue''),
      confirm_buttons = [\<lparr>btn_text = ''Continue'', btn_visible = True\<rparr>],
      confirm_click_error = None, processing_seen = True,
      poll_cards = (\<lambda>k. if k < 3 then Some [] else Some [\<lparr>rect_width = 120, rect_height = 80\<rparr>]),
      poll_ms = (\<lambda>k. 5),
      extract_error = None,
      cards_data = [\<lparr>card_username = Some ''@bob'', card_image = None\<rparr>],
      full_report_clicked = False, close_error = None, catch_close_error = None,
      page_content = (\<lambda>k. Some ''<html></html>''),
      db_up = (\<lambda>k. True), save_time = (\<lambda>k. 1700000000000 + 1000 * k),
      entry_time = (\<lambda>k. 1700000000001 + 1000 * k),
      object_id = ''65f0a1b2c3d4e5f601234567'',
      result_db_up = True, end_time = 1700000040000\<rparr>"

definition stuck_site :: site where
  "stuck_site = demo_site\<lparr>poll_cards := (\<lambda>k. Some [])\<rparr>"



text \<open>The demo site with no button that can be confirmed: the one button of the page is
  hidden. And with no input field after the first click.\<close>

definition hidden_button_site :: site where
  "hidden_button_site =
     demo_site\<lparr>confirm_text_visible := (\<lambda>t. False),
                confirm_buttons := [\<lparr>btn_text = ''Retry'', btn_visible = False\<rparr>]\<rparr>"

definition no_input_site :: site where
  "no_input_site =
     demo_site\<lparr>input_error := Some ''Timeout 8000ms exceeded.'',
                entry_inputs := [\<lparr>in_type = ''email'', in_placeholder = ''Your e-mail'',
                                  in_name = ''email'', in_id = ''lead'', in_className = ''field''\<rparr>]\<rparr>"



section \<open>Properties of the request queue\<close>

lemma in_flight_enqueue_None:
  assumes "processing q u = None" and "\<And>p. in_flight q u p = False"
  shows "in_flight (enqueue u q) v p = (if v = u then p = length (execs q) else in_flight q v p)"
  using assms
  by (auto simp: enqueue_def in_flight_def Let_def nth_append split: if_splits)

lemma queue_inv_step:
  assumes "\<forall>u p. (processing q u = Some p) = in_flight q u p"
  shows "(processing (queue_step q ev) u = Some p) = in_flight (queue_step q ev) u p"
proof (cases ev)
  case (Enqueue v)
  show ?thesis
  proof (cases "processing q v")
    case None
    with assms have nf: "\<And>p. in_flight q v p = False" by (metis option.distinct(1))
    show ?thesis
      using in_flight_enqueue_None [OF None nf, of u p] assms None
      by (auto simp: Enqueue enqueue_def Let_def)
  next
    case (Some p')
    then show ?thesis using assms [rule_format, of u p]
      by (simp add: Enqueue enqueue_def in_flight_def)
  qed
next
  case (Handlers p' out)
  show ?thesis using assms
    by (auto simp: Handlers run_handlers_def in_flight_def nth_list_update
             split: prod.splits exec_state.splits if_splits)
next
  case (Finally p')
  show ?thesis
  proof (cases "p' < length (execs q) \<and> (\<exists>out. snd (execs q ! p') = Notified out)")
    case False
    then show ?thesis using assms
      by (auto simp: Finally run_finally_def split: prod.splits exec_state.splits)
  next
    case True
    then obtain v out where e: "execs q ! p' = (v, Notified out)" and lt: "p' < length (execs q)"
      by (metis prod.collapse)
    then have "in_flight q v p'" by (simp add: in_flight_def)
    with assms have pv: "processing q v = Some p'" by simp
    have q': "run_finally p' q = q\<lparr>processing := (processing q)(v := None),
               execs := (execs q)[p' := (v, Settled out)]\<rparr>"
      using e lt by (simp add: run_finally_def)
    show ?thesis
    proof (cases "u = v")
      case True
      have "\<not> in_flight (run_finally p' q) v p"
      proof
        assume a: "in_flight (run_finally p' q) v p"
        then have "p \<noteq> p'" using lt by (auto simp: q' in_flight_def)
        with a have "in_flight q v p" by (auto simp: q' in_flight_def)
        with assms have "processing q v = Some p" by simp
        with pv \<open>p \<noteq> p'\<close> show False by simp
      qed
      then show ?thesis by (simp add: Finally True q')
    next
      case False
      have "in_flight (run_finally p' q) u p = in_flight q u p"
        using False e lt by (auto simp: q' in_flight_def nth_list_update)
      then show ?thesis using assms False by (simp add: Finally q')
    qed
  qed
qed

lemma queue_inv:
  "(processing (run_queue evs) u = Some p) = in_flight (run_queue evs) u p"
proof (induction evs arbitrary: u p rule: rev_induct)
  case Nil
  show ?case by (simp add: run_queue_def new_queue_def in_flight_def)
next
  case (snoc ev evs)
  have "\<forall>u p. (processing (run_queue evs) u = Some p) = in_flight (run_queue evs) u p"
    using snoc by blast
  from queue_inv_step [OF this, of ev u p] show ?case
    by (simp add: run_queue_def)
qed

lemma caller_outcome_promise:
  "i < length (calls q) \<Longrightarrow> caller_outcome q i = promise_outcome q (promise_of (calls q ! i))"
  by (cases "calls q ! i")
     (auto simp: caller_outcome_def split: option.splits outcome.splits)


text \<open>
  Claim C1. In every state the queue can reach (any sequence of \<^verbatim>\<open>enqueue\<close> calls and
  promise callbacks, from the empty queue):
  \<^item> a call of \<^verbatim>\<open>enqueue\<close> for a username that is in the \<^verbatim>\<open>processing\<close> map starts no
    execution and leaves the map as it is: the caller is attached to the promise already
    stored there;
  \<^item> the map holds promise \<open>p\<close> for a username exactly while \<open>p\<close> is an execution for that
    username that has not settled yet: the entry appears when the execution starts and is
    gone when it settles, whatever the outcome; so at most one execution per username is
    in flight;
  \<^item> two callers attached to the same promise receive the same outcome, which is the
    outcome of that promise (the same result, or the same error).
\<close>

theorem enqueue_single_flight:
  fixes evs :: "('r, 'e) queue_event list"
  shows
    "(processing (run_queue evs) u = Some p \<longrightarrow>
        execs (enqueue u (run_queue evs)) = execs (run_queue evs) \<and>
        processing (enqueue u (run_queue evs)) = processing (run_queue evs) \<and>
        calls (enqueue u (run_queue evs)) = calls (run_queue evs) @ [Joined p]) \<and>
     ((processing (run_queue evs) u = Some p) = in_flight (run_queue evs) u p) \<and>
     (in_flight (run_queue evs) u p \<and> in_flight (run_queue evs) u p' \<longrightarrow> p = p') \<and>
     (p < length (execs (run_queue evs)) \<and> execs (run_queue evs) ! p = (u, Notified out) \<longrightarrow>
        processing (run_finally p (run_queue evs)) u = None \<and>
        promise_outcome (run_finally p (run_queue evs)) p = Some out) \<and>
     (i < length (calls (run_queue evs)) \<and> j < length (calls (run_queue evs)) \<and>
      promise_of (calls (run_queue evs) ! i) = promise_of (calls (run_queue evs) ! j) \<longrightarrow>
        caller_outcome (run_queue evs) i = caller_outcome (run_queue evs) j \<and>
        caller_outcome (run_queue evs) i =
          promise_outcome (run_queue evs) (promise_of (calls (run_queue evs) ! i)))"
proof -
  let ?q = "run_queue evs"
  have a: "processing ?q u = Some p \<longrightarrow>
        execs (enqueue u ?q) = execs ?q \<and> processing (enqueue u ?q) = processing ?q \<and>
        calls (enqueue u ?q) = calls ?q @ [Joined p]"
    by (simp add: enqueue_def)
  have b: "(processing ?q u = Some p) = in_flight ?q u p"
    by (rule queue_inv)
  have c: "in_flight ?q u p \<and> in_flight ?q u p' \<longrightarrow> p = p'"
    using queue_inv [of evs u p] queue_inv [of evs u p'] by auto
  have d: "p < length (execs ?q) \<and> execs ?q ! p = (u, Notified out) \<longrightarrow>
        processing (run_finally p ?q) u = None \<and>
        promise_outcome (run_finally p ?q) p = Some out"
    by (simp add: run_finally_def promise_outcome_def)
  have e: "i < length (calls ?q) \<and> j < length (calls ?q) \<and>
      promise_of (calls ?q ! i) = promise_of (calls ?q ! j) \<longrightarrow>
        caller_outcome ?q i = caller_outcome ?q j \<and>
        caller_outcome ?q i = promise_outcome ?q (promise_of (calls ?q ! i))"
    by (simp add: caller_outcome_promise)
  from a b c d e show ?thesis by blast
qed

theorem enqueue_single_flight_witness:
  "processing (run_queue [Enqueue ''alice'' :: (nat, string) queue_event]) ''alice'' = Some 0 \<and>
   execs (enqueue ''alice'' (run_queue [Enqueue ''alice'' :: (nat, string) queue_event]))
     = [(''alice'', Running)] \<and>
   calls (enqueue ''alice'' (run_queue [Enqueue ''alice'' :: (nat, string) queue_event]))
     = [Started 0, Joined 0] \<and>
   in_flight (run_queue [Enqueue ''alice'' :: (nat, string) queue_event]) ''alice'' 0 \<and>
   caller_outcome (run_queue [Enqueue ''alice'', Enqueue ''alice'',
       Handlers 0 (Rejected ''timeout'' :: (nat, string) outcome), Finally 0]) 0
     = Some (Rejected ''timeout'') \<and>
   caller_outcome (run_queue [Enqueue ''alice'', Enqueue ''alice'',
       Handlers 0 (Rejected ''timeout'' :: (nat, string) outcome), Finally 0]) 1
     = Some (Rejected ''timeout'') \<and>
   processing (run_queue [Enqueue ''alice'', Enqueue ''alice'',
       Handlers 0 (Rejected ''timeout'' :: (nat, string) outcome), Finally 0]) ''alice'' = None"
proof -
  let ?e1 = "[Enqueue ''alice'' :: (nat, string) queue_event]"
  let ?e2 = "[Enqueue ''alice'', Enqueue ''alice'',
       Handlers 0 (Rejected ''timeout'' :: (nat, string) outcome), Finally 0]"
  have p1: "processing (run_queue ?e1) ''alice'' = Some 0"
    by (simp add: run_queue_def new_queue_def enqueue_def)
  have x1: "execs (run_queue ?e1) = [(''alice'', Running)]"
    by (simp add: run_queue_def new_queue_def enqueue_def)
  have c1: "calls (run_queue ?e1) = [Started 0]"
    by (simp add: run_queue_def new_queue_def enqueue_def)
  have c2: "calls (run_queue ?e2) = [Started 0, Joined 0]"
    by (simp add: run_queue_def new_queue_def enqueue_def run_handlers_def run_finally_def)
  have x2: "execs (run_queue ?e2) = [(''alice'', Settled (Rejected ''timeout''))]"
    by (simp add: run_queue_def new_queue_def enqueue_def run_handlers_def run_finally_def)
  have p2: "processing (run_queue ?e2) ''alice'' = None"
    by (simp add: run_queue_def new_queue_def enqueue_def run_handlers_def run_finally_def)
  have o2: "promise_outcome (run_queue ?e2) 0 = Some (Rejected ''timeout'')"
    by (simp add: promise_outcome_def x2)
  have l2: "0 < length (calls (run_queue ?e2)) \<and> 1 < length (calls (run_queue ?e2)) \<and>
      promise_of (calls (run_queue ?e2) ! 0) = promise_of (calls (run_queue ?e2) ! 1) \<and>
      promise_of (calls (run_queue ?e2) ! 0) = 0"
    by (simp add: c2)
  note t1 = enqueue_single_flight [where evs = ?e1 and u = "''alice''" and p = 0 and p' = 0
      and out = "Fulfilled 0" and i = 0 and j = 0]
  note t2 = enqueue_single_flight [where evs = ?e2 and u = "''alice''" and p = 0 and p' = 0
      and out = "Fulfilled 0" and i = 0 and j = 1]
  from t1 p1 x1 c1 have g1:
    "execs (enqueue ''alice'' (run_queue ?e1)) = [(''alice'', Running)] \<and>
     calls (enqueue ''alice'' (run_queue ?e1)) = [Started 0, Joined 0] \<and>
     in_flight (run_queue ?e1) ''alice'' 0"
    by simp
  from t2 l2 have t2e:
    "caller_outcome (run_queue ?e2) 0 = caller_outcome (run_queue ?e2) 1 \<and>
     caller_outcome (run_queue ?e2) 0 =
       promise_outcome (run_queue ?e2) (promise_of (calls (run_queue ?e2) ! 0))"
    by blast
  from l2 have pz: "promise_of (calls (run_queue ?e2) ! 0) = 0" by blast
  from t2e have a0: "caller_outcome (run_queue ?e2) 0 = Some (Rejected ''timeout'')"
    unfolding pz o2 by blast
  from t2e have "caller_outcome (run_queue ?e2) 1 = caller_outcome (run_queue ?e2) 0"
    by simp
  from this a0 have a1: "caller_outcome (run_queue ?e2) 1 = Some (Rejected ''timeout'')"
    by (rule trans)
  from a0 a1 have g2:
    "caller_outcome (run_queue ?e2) 0 = Some (Rejected ''timeout'') \<and>
     caller_outcome (run_queue ?e2) 1 = Some (Rejected ''timeout'')"
    by blast
  from p1 g1 g2 p2 show ?thesis by blast
qed


section \<open>Properties of parseProfileSnapshot\<close>







lemma filter_none: "(\<forall>x\<in>set xs. \<not> P x) \<Longrightarrow> filter P xs = []"
  by (induction xs) auto

lemma trim_defaults:
  "trim ''Hello'' = ''Hello''"
  "trim ''Is this your profile?'' = ''Is this your profile?''"
  "trim ''Continue, the profile is correct'' = ''Continue, the profile is correct''"
  "trim ''No, I want to correct it'' = ''No, I want to correct it''"
  by code_simp+

text \<open>
  Claim C10. For every document, \<^verbatim>\<open>parseProfileSnapshot\<close> returns a record (never \<^verbatim>\<open>null\<close>), and
  each field has its default when the extraction finds nothing: the progress is 55 when no
  inline style matches a width percentage, the username is the empty string when no
  candidate text starts with \<open>@\<close>, the greeting is \<open>Hello\<close> when there is no heading, the
  question is \<open>Is this your profile?\<close> when no paragraph or span mentions the profile, and
  the two button texts are \<open>Continue, the profile is correct\<close> and
  \<open>No, I want to correct it\<close> when the document has no first, or no second, button. The
  avatar, the one optional field, is \<^verbatim>\<open>null\<close> when no image is found.
\<close>

theorem profile_defaults:
  "\<exists>r. parseProfileSnapshot (Some doc) = Some r \<and>
     ((\<forall>n\<in>set (with_attr ''style'' doc).
         search (width_percent_at is_digit) (attr_or_empty ''style'' n) = None)
        \<longrightarrow> progressPercent r = Num 55) \<and>
     ((\<forall>n\<in>set (by_tags [''span'', ''div'', ''p''] doc). \<not> starts_with ''@'' (handle_text n))
        \<longrightarrow> username r = []) \<and>
     (by_tags [''h1'', ''h2''] doc = [] \<longrightarrow> greeting r = ''Hello'') \<and>
     ((\<forall>n\<in>set (by_tags [''p'', ''span''] doc). \<not> str_includes_ci ''profile'' (trim (textContent n)))
        \<longrightarrow> question r = ''Is this your profile?'') \<and>
     (by_tags [''button''] doc = [] \<longrightarrow> primaryCta r = ''Continue, the profile is correct'') \<and>
     (length (by_tags [''button''] doc) \<le> 1 \<longrightarrow> secondaryCta r = ''No, I want to correct it'') \<and>
     (extractAvatar doc = None \<longrightarrow> avatar r = None)"
proof -
  obtain r where r: "parseProfileSnapshot (Some doc) = Some r"
    by (simp add: parseProfileSnapshot_def Let_def)
  have p: "(\<forall>n\<in>set (with_attr ''style'' doc).
         search (width_percent_at is_digit) (attr_or_empty ''style'' n) = None)
        \<longrightarrow> progressPercent r = Num 55"
  proof
    assume "\<forall>n\<in>set (with_attr ''style'' doc).
         search (width_percent_at is_digit) (attr_or_empty ''style'' n) = None"
    then have "progressNode doc = None"
      by (simp add: progressNode_def filter_none first_of_def)
    with r show "progressPercent r = Num 55"
      by (auto simp: parseProfileSnapshot_def Let_def progressPercent_of_def)
  qed
  have u: "(\<forall>n\<in>set (by_tags [''span'', ''div'', ''p''] doc). \<not> starts_with ''@'' (handle_text n))
        \<longrightarrow> username r = []"
  proof
    assume "\<forall>n\<in>set (by_tags [''span'', ''div'', ''p''] doc). \<not> starts_with ''@'' (handle_text n)"
    then have "usernameNodes doc = []"
      by (simp add: usernameNodes_def filter_none)
    with r show "username r = []"
      by (auto simp: parseProfileSnapshot_def Let_def cleanUsername_def first_of_def)
  qed
  have g: "by_tags [''h1'', ''h2''] doc = [] \<longrightarrow> greeting r = ''Hello''"
    using r by (auto simp: parseProfileSnapshot_def Let_def first_of_def text_or_def trim_defaults)
  have q: "(\<forall>n\<in>set (by_tags [''p'', ''span''] doc). \<not> str_includes_ci ''profile'' (trim (textContent n)))
        \<longrightarrow> question r = ''Is this your profile?''"
  proof
    assume "\<forall>n\<in>set (by_tags [''p'', ''span''] doc). \<not> str_includes_ci ''profile'' (trim (textContent n))"
    then have "questionNode doc = None"
      by (simp add: questionNode_def filter_none first_of_def)
    with r show "question r = ''Is this your profile?''"
      by (auto simp: parseProfileSnapshot_def Let_def text_or_def trim_defaults)
  qed
  have c1: "by_tags [''button''] doc = [] \<longrightarrow> primaryCta r = ''Continue, the profile is correct''"
    using r by (auto simp: parseProfileSnapshot_def Let_def nth_opt_def text_or_def trim_defaults)
  have c2: "length (by_tags [''button''] doc) \<le> 1 \<longrightarrow> secondaryCta r = ''No, I want to correct it''"
    using r by (auto simp: parseProfileSnapshot_def Let_def nth_opt_def text_or_def trim_defaults)
  have a: "extractAvatar doc = None \<longrightarrow> avatar r = None"
    using r by (auto simp: parseProfileSnapshot_def Let_def)
  show ?thesis
    by (rule exI [of _ r]) (intro conjI r p u g q c1 c2 a)
qed

theorem profile_defaults_witness:
  "parseProfileSnapshot (Some empty_profile_doc) =
     Some \<lparr>avatar = None, progressPercent = Num 55, username = [],
            greeting = ''Hello'', question = ''Is this your profile?'',
            primaryCta = ''Continue, the profile is correct'',
            secondaryCta = ''No, I want to correct it''\<rparr>"
proof -
  have h1: "\<forall>n\<in>set (with_attr ''style'' empty_profile_doc).
         search (width_percent_at is_digit) (attr_or_empty ''style'' n) = None"
    by code_simp
  have h2: "\<forall>n\<in>set (by_tags [''span'', ''div'', ''p''] empty_profile_doc). \<not> starts_with ''@'' (handle_text n)"
    by code_simp
  have h3: "by_tags [''h1'', ''h2''] empty_profile_doc = []"
    by code_simp
  have h4: "\<forall>n\<in>set (by_tags [''p'', ''span''] empty_profile_doc). \<not> str_includes_ci ''profile'' (trim (textContent n))"
    by code_simp
  have h5: "by_tags [''button''] empty_profile_doc = []"
    by code_simp
  have h6: "extractAvatar empty_profile_doc = None"
    by code_simp
  from profile_defaults [of empty_profile_doc]
  obtain r where R: "parseProfileSnapshot (Some empty_profile_doc) = Some r \<and>
     ((\<forall>n\<in>set (with_attr ''style'' empty_profile_doc).
         search (width_percent_at is_digit) (attr_or_empty ''style'' n) = None)
        \<longrightarrow> progressPercent r = Num 55) \<and>
     ((\<forall>n\<in>set (by_tags [''span'', ''div'', ''p''] empty_profile_doc). \<not> starts_with ''@'' (handle_text n))
        \<longrightarrow> username r = []) \<and>
     (by_tags [''h1'', ''h2''] empty_profile_doc = [] \<longrightarrow> greeting r = ''Hello'') \<and>
     ((\<forall>n\<in>set (by_tags [''p'', ''span''] empty_profile_doc). \<not> str_includes_ci ''profile'' (trim (textContent n)))
        \<longrightarrow> question r = ''Is this your profile?'') \<and>
     (by_tags [''button''] empty_profile_doc = [] \<longrightarrow> primaryCta r = ''Continue, the profile is correct'') \<and>
     (length (by_tags [''button''] empty_profile_doc) \<le> 1 \<longrightarrow> secondaryCta r = ''No, I want to correct it'') \<and>
     (extractAvatar empty_profile_doc = None \<longrightarrow> avatar r = None)"
    by (erule exE)
  have h7: "length (by_tags [''button''] empty_profile_doc) \<le> 1"
    by (simp add: h5)
  from R have r0: "parseProfileSnapshot (Some empty_profile_doc) = Some r" by (rule conjunct1)
  from R h1 have r1: "progressPercent r = Num 55" by blast
  from R h2 have r2: "username r = []" by blast
  from R h3 have r3: "greeting r = ''Hello''" by blast
  from R h4 have r4: "question r = ''Is this your profile?''" by blast
  from R h5 have r5: "primaryCta r = ''Continue, the profile is correct''" by blast
  from R h7 have r6: "secondaryCta r = ''No, I want to correct it''" by blast
  from R h6 have r7: "avatar r = None" by blast
  from r1 r2 r3 r4 r5 r6 r7 have eq: "r = \<lparr>avatar = None, progressPercent = Num 55, username = [],
            greeting = ''Hello'', question = ''Is this your profile?'',
            primaryCta = ''Continue, the profile is correct'',
            secondaryCta = ''No, I want to correct it''\<rparr>"
    by (cases r) simp
  from r0 show ?thesis unfolding eq .
qed

section \<open>Properties of parseProcessingSnapshot\<close>














section \<open>Properties of the avatar extraction of parseFullReport\<close>

lemma first_of_map_filter:
  "first_of (List.map_filter f xs) = Some a \<Longrightarrow> \<exists>x\<in>set xs. f x = Some a"
  by (induction xs) (auto simp: first_of_def List.map_filter_simps split: option.splits list.splits)

lemma first_of_filter: "first_of (filter P xs) = Some a \<Longrightarrow> P a"
proof -
  assume "first_of (filter P xs) = Some a"
  then obtain ys where "filter P xs = a # ys"
    by (auto simp: first_of_def split: list.splits)
  then have "a \<in> set (filter P xs)" by simp
  then show "P a" by simp
qed

lemma map_filter_none: "(\<forall>x\<in>set xs. f x = None) \<Longrightarrow> List.map_filter f xs = []"
  by (induction xs) (auto simp: List.map_filter_simps)

lemma method1_complete: "method1 doc = Some a \<Longrightarrow> is_complete_base64 a"
proof -
  assume "method1 doc = Some a"
  then obtain d where "rounded_full_avatar d = Some a"
    unfolding method1_def by (blast dest: first_of_map_filter)
  then show ?thesis
    by (auto simp: rounded_full_avatar_def Let_def split: if_splits option.splits)
qed

lemma method2_complete: "method2 doc = Some a \<Longrightarrow> is_complete_base64 a"
proof -
  assume "method2 doc = Some a"
  then obtain el where "background_avatar el = Some a"
    unfolding method2_def by (blast dest: first_of_map_filter)
  then have "first_of (List.map_filter
             (\<lambda>pattern. case search pattern (attr_or_empty ''style'' el) of
                           None \<Rightarrow> None
                         | Some g \<Rightarrow> if is_complete_base64 (clean_base64Url g)
                                     then Some (clean_base64Url g) else None)
             [pattern1_at, pattern2_at, pattern3_at]) = Some a"
    unfolding background_avatar_def Let_def
    by (simp del: map_filter_simps split: if_splits)
  then obtain pattern where
    "(case search pattern (attr_or_empty ''style'' el) of
        None \<Rightarrow> None
      | Some g \<Rightarrow> if is_complete_base64 (clean_base64Url g)
                  then Some (clean_base64Url g) else None) = Some a"
    by (blast dest: first_of_map_filter)
  then show ?thesis
    by (auto split: option.splits if_splits)
qed

lemma method3_long: "method3 html = Some a \<Longrightarrow> length a > 500"
  unfolding method3_def by (drule first_of_filter) simp

lemma base64_token_at_other: "c \<noteq> CHR ''d'' \<Longrightarrow> base64_token_at (c # cs) = None"
  by (simp add: base64_token_at_def)

lemma matchAll_skip: "c \<noteq> CHR ''d'' \<Longrightarrow> matchAll (c # cs) = matchAll cs"
  by (simp add: base64_token_at_other)

lemma takeWhile_payload:
  assumes "list_all is_base64_char payload"
  shows "takeWhile is_base64_char (payload @ CHR 0x22 # rest) = payload"
proof -
  have "\<not> is_base64_char (CHR 0x22)" by (simp add: is_base64_char_def)
  with assms show ?thesis
    by (simp add: takeWhile_tail list_all_iff)
qed

lemma base64_token_at_image:
  assumes "list_all is_base64_char payload" and "length payload \<ge> 200"
  shows "base64_token_at (image_token payload @ CHR 0x22 # rest) = Some (image_token payload)"
  using assms
  by (simp add: base64_token_at_def image_token_def takeWhile_payload)

lemma matchAll_image_html:
  assumes "list_all is_base64_char payload" and "length payload \<ge> 200"
  shows "\<exists>ms. matchAll (image_html payload) = image_token payload # ms"
proof -
  have "matchAll (image_html payload) = matchAll (image_token payload @ CHR 0x22 # ''>'')"
    by (simp add: image_html_def matchAll_skip del: matchAll.simps)
  also have "image_token payload @ CHR 0x22 # ''>'' = CHR ''d'' # tl (image_token payload @ CHR 0x22 # ''>'')"
    by (simp add: image_token_def)
  finally have "matchAll (image_html payload) = matchAll (CHR ''d'' # tl (image_token payload @ CHR 0x22 # ''>''))" .
  moreover have "base64_token_at (CHR ''d'' # tl (image_token payload @ CHR 0x22 # ''>'')) = Some (image_token payload)"
    using base64_token_at_image [OF assms, of "''>''"] by (simp add: image_token_def)
  ultimately show ?thesis by simp
qed

lemma str_includes_image_html: "str_includes ''data:image'' (image_html payload)"
  by (simp add: image_html_def image_token_def)

lemma image_doc_methods: "method1 (image_doc payload) = None \<and> method2 (image_doc payload) = None"
  by (simp add: method1_def method2_def image_doc_def attr_includes_def first_of_def
                List.map_filter_simps)

lemma image_example:
  assumes "length payload = 10000" and "list_all is_base64_char payload"
  shows "fullReportAvatar (image_html payload) (image_doc payload) = Some (image_token payload)"
proof -
  from assms obtain ms where ms: "matchAll (image_html payload) = image_token payload # ms"
    using matchAll_image_html [of payload] by auto
  have "length (image_token payload) > 500"
    using assms by (simp add: image_token_def)
  then have "method3 (image_html payload) = Some (image_token payload)"
    by (simp add: method3_def ms first_of_def)
  then show ?thesis
    by (simp add: fullReportAvatar_def image_doc_methods str_includes_image_html)
qed

lemma no_image_data:
  assumes "\<not> str_includes ''data:image'' html"
    and "\<forall>n\<in>set (elements doc). \<not> str_includes ''data:image'' (attr_or_empty ''style'' n)"
  shows "fullReportAvatar html doc = None"
proof -
  have "\<forall>n\<in>set (elements doc). rounded_full_avatar n = None"
    using assms(2) by (simp add: rounded_full_avatar_def)
  then have m1: "method1 doc = None"
    by (simp add: method1_def map_filter_none first_of_def)
  have "\<forall>n\<in>set (elements doc). background_avatar n = None"
    using assms(2) by (simp add: background_avatar_def)
  then have m2: "method2 doc = None"
    by (simp add: method2_def map_filter_none first_of_def)
  show ?thesis
    by (simp add: fullReportAvatar_def m1 m2 assms(1))
qed

lemma base64_char_plain:
  "is_base64_char c \<Longrightarrow> not_url_end c \<and> c \<noteq> CHR ''&'' \<and> c \<noteq> CHR '')'' \<and> \<not> is_quote c"
  by (auto simp: is_base64_char_def not_url_end_def is_quote_def)

lemma replace_all_absent: "p \<noteq> [] \<Longrightarrow> hd p \<notin> set s \<Longrightarrow> replace_all p r s = s"
proof (induction s)
  case Nil
  show ?case by simp
next
  case (Cons c cs)
  then have "\<not> starts_with p (c # cs)" by (cases p) auto
  with Cons show ?case by simp
qed

lemma image_token_chars:
  assumes "list_all is_base64_char payload"
  shows "CHR ''&'' \<notin> set (image_token payload)" and "list_all not_url_end (image_token payload)"
  using assms base64_char_plain
  by (auto simp: image_token_def list_all_iff not_url_end_def)

lemma clean_image_token:
  assumes "list_all is_base64_char payload" and "payload \<noteq> []"
  shows "clean_base64Url (image_token payload) = image_token payload"
proof -
  let ?t = "image_token payload"
  have amp: "CHR ''&'' \<notin> set ?t" using assms(1) by (rule image_token_chars)
  have r1: "replace_all ''&quot;'' [] ?t = ?t"
    using amp by (simp add: replace_all_absent)
  have r2: "replace_all ''&amp;'' ''&'' ?t = ?t"
    using amp by (simp add: replace_all_absent)
  have r3: "strip_prefix ''url('' ?t = ?t"
    by (simp add: strip_prefix_def image_token_def)
  have "last ?t = last payload" using assms(2) by (simp add: image_token_def)
  moreover have "is_base64_char (last payload)"
    using assms by (simp add: list_all_iff)
  ultimately have l: "last ?t \<noteq> CHR '')'' \<and> \<not> is_quote (last ?t)"
    using base64_char_plain by simp
  have r4: "strip_trailing (\<lambda>c. c = CHR '')'') ?t = ?t"
    using l by (simp add: strip_trailing_def)
  have r5: "strip_leading is_quote ?t = ?t"
    by (simp add: strip_leading_def image_token_def is_quote_def)
  have r6: "strip_trailing is_quote ?t = ?t"
    using l by (simp add: strip_trailing_def)
  show ?thesis
    by (simp add: clean_base64Url_def r1 r2 r3 r4 r5 r6)
qed

lemma complete_image_token:
  "length payload \<ge> 200 \<Longrightarrow> is_complete_base64 (image_token payload)"
  by (simp add: is_complete_base64_def image_token_def)

lemma pattern1_at_style:
  assumes "list_all is_base64_char payload" and "payload \<noteq> []"
  shows "search pattern1_at (''background-image: url('' @ [CHR 0x22] @ image_token payload @ [CHR 0x22] @ '')'')
           = Some (image_token payload)"
proof -
  have nu: "\<forall>c\<in>set payload. not_url_end c"
    using assms(1) base64_char_plain by (auto simp: list_all_iff)
  have tw: "takeWhile not_url_end (''png;base64,'' @ payload @ [CHR 0x22] @ '')'') = ''png;base64,'' @ payload"
    using nu by (simp add: not_url_end_def takeWhile_tail)
  have p: "pattern1_at (''url('' @ [CHR 0x22] @ image_token payload @ [CHR 0x22] @ '')'') = Some (image_token payload)"
    using tw by (simp add: pattern1_at_def strip_leading_def is_quote_def strip_prefix_def image_token_def Let_def)
  have n: "\<And>c cs. c \<noteq> CHR ''u'' \<Longrightarrow> pattern1_at (c # cs) = None"
    by (simp add: pattern1_at_def)
  have n2: "\<And>cs. pattern1_at (CHR ''u'' # CHR ''n'' # cs) = None"
    by (simp add: pattern1_at_def)
  show ?thesis
    using p by (simp add: n n2)
qed

lemma styled_div_method2:
  assumes "list_all is_base64_char payload" and "length payload \<ge> 200"
  shows "method1 (styled_div_doc payload) = None \<and>
         method2 (styled_div_doc payload) = Some (image_token payload)"
proof -
  from assms(2) have ne: "payload \<noteq> []" by auto
  let ?style = "''background-image: url('' @ [CHR 0x22] @ image_token payload @ [CHR 0x22] @ '')''"
  let ?d = "Element ''div'' [(''class'', ''profile-picture''), (''style'', ?style)] []"
  have m1: "method1 (styled_div_doc payload) = None"
    by (simp add: method1_def styled_div_doc_def attr_includes_def first_of_def)
  have inc: "str_includes ''data:image'' ?style"
    by (simp add: image_token_def)
  have bg: "background_avatar ?d = Some (image_token payload)"
    unfolding background_avatar_def Let_def attr_or_empty_def
    using inc pattern1_at_style [OF assms(1) ne] clean_image_token [OF assms(1) ne]
      complete_image_token [OF assms(2)]
    by (simp add: first_of_def)
  have sel: "filter (attr_includes ''style'' ''background-image'') (elements (styled_div_doc payload)) = [?d]"
    by (simp add: styled_div_doc_def attr_includes_def)
  have m2: "method2 (styled_div_doc payload) = Some (image_token payload)"
    unfolding method2_def sel using bg by (simp add: first_of_def)
  from m1 m2 show ?thesis by simp
qed

lemma no_background_style:
  assumes "\<forall>n\<in>set (elements doc). \<not> str_includes ''background-image'' (attr_or_empty ''style'' n)"
  shows "method1 doc = None \<and> method2 doc = None"
proof -
  have "\<forall>n\<in>set (elements doc). rounded_full_avatar n = None"
    using assms by (simp add: rounded_full_avatar_def)
  then have m1: "method1 doc = None"
    by (simp add: method1_def map_filter_none first_of_def)
  have "\<forall>n\<in>set (elements doc). \<not> attr_includes ''style'' ''background-image'' n"
    using assms by (auto simp: attr_includes_def attr_or_empty_def split: option.splits)
  then have "filter (attr_includes ''style'' ''background-image'') (elements doc) = []"
    by (simp add: filter_none)
  then have m2: "method2 doc = None"
    by (simp add: method2_def first_of_def)
  from m1 m2 show ?thesis by simp
qed

text \<open>
  Claim C6, as the code has it. The three methods are tried in this order and the first that
  succeeds gives the avatar: (1) a \<^verbatim>\<open>div\<close> whose class contains \<^verbatim>\<open>rounded-full\<close> and whose
  inline style holds a background image with image data, longer than 200 characters; (2) any
  element whose inline style contains \<^verbatim>\<open>background-image\<close> and holds image data, longer than
  200 characters; (3) the first embedded-image token of the markup longer than 500
  characters. When no element has an inline background-image style, methods 1 and 2 fail;
  so for an image of 10,000 encoded characters in an \<^verbatim>\<open>img\<close> element, method 3 returns it.
  When the same image sits in the inline background-image style of an element without the
  class hint, method 2 returns it. With no image data in the markup and in the styles, the
  result is \<^verbatim>\<open>null\<close>.
\<close>

theorem full_report_avatar:
  "(method1 doc = Some a \<longrightarrow> fullReportAvatar html doc = Some a \<and> length a > 200) \<and>
   (method1 doc = None \<and> method2 doc = Some a \<longrightarrow>
      fullReportAvatar html doc = Some a \<and> length a > 200) \<and>
   (method1 doc = None \<and> method2 doc = None \<longrightarrow>
      fullReportAvatar html doc = (if str_includes ''data:image'' html then method3 html else None)) \<and>
   (method3 html = Some a \<longrightarrow> length a > 500) \<and>
   (length payload = 10000 \<and> list_all is_base64_char payload \<longrightarrow>
      method1 (image_doc payload) = None \<and> method2 (image_doc payload) = None \<and>
      fullReportAvatar (image_html payload) (image_doc payload) = Some (image_token payload)) \<and>
   (\<not> str_includes ''data:image'' html \<and>
    (\<forall>n\<in>set (elements doc). \<not> str_includes ''data:image'' (attr_or_empty ''style'' n)) \<longrightarrow>
      fullReportAvatar html doc = None) \<and>
   ((\<forall>n\<in>set (elements doc). \<not> str_includes ''background-image'' (attr_or_empty ''style'' n)) \<longrightarrow>
      method1 doc = None \<and> method2 doc = None) \<and>
   (length payload = 10000 \<and> list_all is_base64_char payload \<longrightarrow>
      method1 (styled_div_doc payload) = None \<and>
      method2 (styled_div_doc payload) = Some (image_token payload) \<and>
      fullReportAvatar html (styled_div_doc payload) = Some (image_token payload))"
proof -
  have a1: "method1 doc = Some a \<longrightarrow> fullReportAvatar html doc = Some a \<and> length a > 200"
    using method1_complete [of doc a] by (auto simp: fullReportAvatar_def is_complete_base64_def)
  have a2: "method1 doc = None \<and> method2 doc = Some a \<longrightarrow>
      fullReportAvatar html doc = Some a \<and> length a > 200"
    using method2_complete [of doc a] by (auto simp: fullReportAvatar_def is_complete_base64_def)
  have a3: "method1 doc = None \<and> method2 doc = None \<longrightarrow>
      fullReportAvatar html doc = (if str_includes ''data:image'' html then method3 html else None)"
    by (simp add: fullReportAvatar_def)
  have a4: "method3 html = Some a \<longrightarrow> length a > 500"
    using method3_long by blast
  have a5: "length payload = 10000 \<and> list_all is_base64_char payload \<longrightarrow>
      method1 (image_doc payload) = None \<and> method2 (image_doc payload) = None \<and>
      fullReportAvatar (image_html payload) (image_doc payload) = Some (image_token payload)"
    using image_example image_doc_methods by blast
  have a6: "\<not> str_includes ''data:image'' html \<and>
    (\<forall>n\<in>set (elements doc). \<not> str_includes ''data:image'' (attr_or_empty ''style'' n)) \<longrightarrow>
      fullReportAvatar html doc = None"
    using no_image_data by blast
  have a7: "(\<forall>n\<in>set (elements doc). \<not> str_includes ''background-image'' (attr_or_empty ''style'' n)) \<longrightarrow>
      method1 doc = None \<and> method2 doc = None"
    using no_background_style by blast
  have a8: "length payload = 10000 \<and> list_all is_base64_char payload \<longrightarrow>
      method1 (styled_div_doc payload) = None \<and>
      method2 (styled_div_doc payload) = Some (image_token payload) \<and>
      fullReportAvatar html (styled_div_doc payload) = Some (image_token payload)"
  proof
    assume h: "length payload = 10000 \<and> list_all is_base64_char payload"
    then have "list_all is_base64_char payload" and "length payload \<ge> 200" by simp_all
    then have m: "method1 (styled_div_doc payload) = None \<and>
         method2 (styled_div_doc payload) = Some (image_token payload)"
      by (rule styled_div_method2)
    then have "fullReportAvatar html (styled_div_doc payload) = Some (image_token payload)"
      by (simp add: fullReportAvatar_def)
    with m show "method1 (styled_div_doc payload) = None \<and>
      method2 (styled_div_doc payload) = Some (image_token payload) \<and>
      fullReportAvatar html (styled_div_doc payload) = Some (image_token payload)"
      by simp
  qed
  show ?thesis by (intro conjI a1 a2 a3 a4 a5 a6 a7 a8)
qed

theorem full_report_avatar_witness:
  "fullReportAvatar (image_html (replicate 10000 (CHR ''A''))) (image_doc (replicate 10000 (CHR ''A'')))
     = Some (image_token (replicate 10000 (CHR ''A''))) \<and>
   method1 (image_doc (replicate 10000 (CHR ''A''))) = None \<and>
   method2 (image_doc (replicate 10000 (CHR ''A''))) = None \<and>
   fullReportAvatar (image_html (replicate 600 (CHR ''B''))) (avatar_div_doc (replicate 200 (CHR ''A'')))
     = Some (image_token (replicate 200 (CHR ''A''))) \<and>
   fullReportAvatar plain_html plain_doc = None"
proof -
  let ?p = "replicate 10000 (CHR ''A'')"
  have h: "length ?p = 10000 \<and> list_all is_base64_char ?p"
    by (simp add: list_all_iff is_base64_char_def)
  from full_report_avatar [where payload = ?p] h
  have g1: "method1 (image_doc ?p) = None \<and> method2 (image_doc ?p) = None \<and>
      fullReportAvatar (image_html ?p) (image_doc ?p) = Some (image_token ?p)"
    by blast
  have m: "method1 (avatar_div_doc (replicate 200 (CHR ''A''))) = Some (image_token (replicate 200 (CHR ''A'')))"
    by code_simp
  from full_report_avatar [where doc = "avatar_div_doc (replicate 200 (CHR ''A''))"
      and a = "image_token (replicate 200 (CHR ''A''))"
      and html = "image_html (replicate 600 (CHR ''B''))"] m
  have g2: "fullReportAvatar (image_html (replicate 600 (CHR ''B''))) (avatar_div_doc (replicate 200 (CHR ''A'')))
     = Some (image_token (replicate 200 (CHR ''A'')))"
    by blast
  have n1: "\<not> str_includes ''data:image'' plain_html"
    by code_simp
  have n2: "\<forall>n\<in>set (elements plain_doc). \<not> str_includes ''data:image'' (attr_or_empty ''style'' n)"
    by code_simp
  from full_report_avatar [where doc = plain_doc and html = plain_html] n1 n2
  have g3: "fullReportAvatar plain_html plain_doc = None"
    by blast
  from g1 g2 g3 show ?thesis by blast
qed

text \<open>
  The claim as stated fails where the image of 10,000 encoded characters sits in an inline
  background-image style: there is no class-hinted container, and method 2 does not fail.
\<close>

theorem avatar_in_style_counterexample:
  "method1 (styled_div_doc (replicate 10000 (CHR ''A''))) = None \<and>
   method2 (styled_div_doc (replicate 10000 (CHR ''A'')))
     = Some (image_token (replicate 10000 (CHR ''A''))) \<and>
   fullReportAvatar (styled_div_html (replicate 10000 (CHR ''A'')))
       (styled_div_doc (replicate 10000 (CHR ''A'')))
     = Some (image_token (replicate 10000 (CHR ''A'')))"
proof -
  let ?p = "replicate 10000 (CHR ''A'')"
  have h: "list_all is_base64_char ?p" "length ?p \<ge> 200"
    by (simp_all add: list_all_iff is_base64_char_def)
  from styled_div_method2 [OF h]
  have m: "method1 (styled_div_doc ?p) = None \<and> method2 (styled_div_doc ?p) = Some (image_token ?p)" .
  then have "fullReportAvatar (styled_div_html ?p) (styled_div_doc ?p) = Some (image_token ?p)"
    by (simp add: fullReportAvatar_def)
  with m show ?thesis by simp
qed

section \<open>Properties of the snapshot store\<close>




lemma find_none: "(\<forall>x\<in>set xs. \<not> P x) \<Longrightarrow> find P xs = None"
  by (induction xs) auto






section \<open>Properties of the scraper\<close>



lemma poll_spec:
  assumes "poll site k (tick_start site k) = (found, n, e)"
    and "\<forall>i<k. \<not> cards_ready (poll_cards site i)"
  shows "k \<le> n \<and> e = tick_start site (if found then n - 1 else n) \<and>
         (found \<longrightarrow> k < n \<and> cards_ready (poll_cards site (n - 1)) \<and>
                     tick_start site (n - 1) < maxWaitTime \<and>
                     (\<forall>i<n - 1. \<not> cards_ready (poll_cards site i))) \<and>
         (\<not> found \<longrightarrow> maxWaitTime \<le> tick_start site n \<and>
                       (\<forall>i<n. \<not> cards_ready (poll_cards site i)))"
  using assms
proof (induction site k "tick_start site k" arbitrary: found n e rule: poll.induct)
  case (1 site k)
  show ?case
  proof (cases "tick_start site k < maxWaitTime")
    case False
    with "1.prems" show ?thesis by (subst (asm) poll.simps) auto
  next
    case True
    show ?thesis
    proof (cases "cards_ready (poll_cards site k)")
      case ready: True
      with True "1.prems" show ?thesis by (subst (asm) poll.simps) auto
    next
      case notready: False
      have step: "poll site (Suc k) (tick_start site (Suc k)) = (found, n, e)"
        using "1.prems"(1) True notready by (subst (asm) poll.simps) (simp add: add.assoc)
      have pre: "\<forall>i<Suc k. \<not> cards_ready (poll_cards site i)"
        using "1.prems"(2) notready by (auto simp: less_Suc_eq)
      have "tick_start site k + poll_ms site k + pollInterval = tick_start site (Suc k)" by simp
      from "1.hyps" [OF True notready this step pre]
      show ?thesis by auto
    qed
  qed
qed





























subsection \<open>Errors of the hard stages\<close>

lemma stage_errors:
  "fst (stage_landing site onStep user rid s) = goto_error site"
  "fst (stage_reveal site onStep user rid s)
     = map_option (\<lambda>e. reveal_message (reveal_buttons site)) (reveal_error site)"
  "fst (stage_username site onStep user rid s)
     = map_option (\<lambda>e. input_message (entry_inputs site)) (input_error site)"
  "fst (stage_continue site onStep user rid s)
     = map_option (\<lambda>e. ''Could not find Continue button: '' @ e) (continue_error site)"
  "fst (stage_confirm site onStep user rid s)
     = map_option (\<lambda>m. ''Could not find profile confirmation button: '' @ m)
         (if confirm_button_found site then confirm_click_error site
          else Some ''No profile confirmation button found'')"
  "fst (stage_processing site onStep user rid s) = None"
  "fst (stage_results_wait site onStep user rid s)
     = (if fst (poll site 0 0) then None
        else Some ''Cards did not appear within timeout period'')"
  "fst (stage_results site onStep user rid s) = extract_error site"
  "fst (stage_full_report site onStep user rid s) = close_error site"
  by (simp_all add: stage_landing_def stage_reveal_def stage_username_def stage_continue_def
        stage_confirm_def stage_processing_def stage_results_wait_def stage_results_def
        stage_full_report_def Let_def
      split: option.splits)

lemma run_stages_first_error:
  assumes "list_all2 (\<lambda>f e. \<forall>s. fst (f s) = e) fs es"
  shows "fst (run_stages fs s) = (case filter (\<lambda>e. e \<noteq> None) es of [] \<Rightarrow> None | e # _ \<Rightarrow> e)"
  using assms
proof (induction fs es arbitrary: s rule: list_all2_induct)
  case Nil
  show ?case by simp
next
  case (Cons f fs e es)
  obtain e1 s1 where f: "f s = (e1, s1)" by (cases "f s")
  with Cons.hyps(1) have "e1 = e" by (metis fst_conv)
  with f Cons.IH [of s1] show ?case
    by (cases e) auto
qed

lemma stages_error:
  "fst (run_stages (stages site onStep user rid) s)
     = (case filter (\<lambda>e. e \<noteq> None)
          [goto_error site,
           map_option (\<lambda>e. reveal_message (reveal_buttons site)) (reveal_error site),
           map_option (\<lambda>e. input_message (entry_inputs site)) (input_error site),
           map_option (\<lambda>e. ''Could not find Continue button: '' @ e) (continue_error site),
           map_option (\<lambda>m. ''Could not find profile confirmation button: '' @ m)
             (if confirm_button_found site then confirm_click_error site
              else Some ''No profile confirmation button found''),
           None,
           (if fst (poll site 0 0) then None
            else Some ''Cards did not appear within timeout period''),
           extract_error site,
           close_error site] of [] \<Rightarrow> None | e # _ \<Rightarrow> e)"
  by (rule run_stages_first_error) (simp add: stages_def stage_errors)

lemma scrape_error:
  assumes "launch_error site = None" and "catch_close_error site = None"
    and "fst (run_stages (stages site onStep user (decimal (start_time site)))
           \<lparr>rs_steps = [], stepIndex = 0, rs_snapshotId = None, emitted = [], store = coll\<rparr>)
         = Some m"
  shows "fst (scrape site onStep user coll) = Inl m"
proof -
  obtain e s where r: "run_stages (stages site onStep user (decimal (start_time site)))
           \<lparr>rs_steps = [], stepIndex = 0, rs_snapshotId = None, emitted = [], store = coll\<rparr> = (e, s)"
    by (cases "run_stages (stages site onStep user (decimal (start_time site)))
           \<lparr>rs_steps = [], stepIndex = 0, rs_snapshotId = None, emitted = [], store = coll\<rparr>")
  with assms(3) have "e = Some m" by simp
  with r assms(1,2) show ?thesis by (simp add: scrape_def Let_def)
qed

lemma starts_with_append: "starts_with p (p @ r)"
  by (induction p) auto

lemma str_includes_append: "str_includes p s \<Longrightarrow> str_includes p (a @ s)"
  by (induction a) (auto simp: neq_Nil_conv)

lemma str_includes_mid: "str_includes p (a @ p @ b)"
proof -
  have "str_includes p (p @ b)"
    by (cases "p @ b") (auto simp: starts_with_append, metis starts_with_append)
  then show ?thesis by (rule str_includes_append)
qed

lemma join_mem: "x \<in> set xs \<Longrightarrow> \<exists>a b. join sep xs = a @ x @ b"
proof (induction sep xs rule: join.induct)
  case (1 sep)
  then show ?case by simp
next
  case (2 sep y)
  then have "join sep [y] = [] @ x @ []" by simp
  then show ?case by blast
next
  case (3 sep y z zs)
  show ?case
  proof (cases "x = y")
    case True
    then have "join sep (y # z # zs) = [] @ x @ (sep @ join sep (z # zs))" by simp
    then show ?thesis by blast
  next
    case False
    with 3 obtain a b where "join sep (z # zs) = a @ x @ b" by auto
    then have "join sep (y # z # zs) = (y @ sep @ a) @ x @ b" by simp
    then show ?thesis by blast
  qed
qed

lemma input_message_enumerates:
  assumes "i \<in> set inputs"
  shows "str_includes (json_input i) (input_message inputs)"
proof -
  from assms have "json_input i \<in> set (map json_input inputs)" by simp
  then obtain a b where "join '','' (map json_input inputs) = a @ json_input i @ b"
    using join_mem by blast
  then have "input_message inputs
      = (''Could not find username input. Available inputs: ['' @ a) @ json_input i @ (b @ '']'')"
    by (simp add: input_message_def json_inputs_def)
  then show ?thesis by (simp only: str_includes_mid)
qed

lemma reveal_message_enumerates:
  assumes "t \<in> set texts" and "trim t \<noteq> []"
  shows "str_includes (trim t) (reveal_message texts)"
proof -
  from assms have "trim t \<in> set (filter (\<lambda>t. t \<noteq> []) (map trim texts))" by auto
  then obtain a b where "join '', '' (filter (\<lambda>t. t \<noteq> []) (map trim texts)) = a @ trim t @ b"
    using join_mem by blast
  then have "reveal_message texts
      = (''Could not find '' @ [CHR 0x22] @ ''Reveal Stalkers'' @ [CHR 0x22]
           @ '' button. Available buttons: '' @ a) @ trim t @ b"
    by (simp add: reveal_message_def)
  then show ?thesis by (simp only: str_includes_mid)
qed

lemma poll_never:
  assumes "\<And>i. \<not> cards_ready (poll_cards site i)"
  shows "\<not> fst (poll site 0 0)"
proof
  assume f: "fst (poll site 0 0)"
  obtain found n e where p: "poll site 0 0 = (found, n, e)" by (cases "poll site 0 0") auto
  then have "poll site 0 (tick_start site 0) = (found, n, e)" by simp
  from poll_spec [OF this] f p have "cards_ready (poll_cards site (n - 1))" by simp
  with assms show False by blast
qed

lemma scrape_failure_messages:
  assumes "launch_error site = None" and "catch_close_error site = None"
    and "goto_error site = None"
  shows "reveal_error site \<noteq> None \<Longrightarrow>
           fst (scrape site onStep user coll) = Inl (reveal_message (reveal_buttons site))"
    and "reveal_error site = None \<Longrightarrow> input_error site \<noteq> None \<Longrightarrow>
           fst (scrape site onStep user coll) = Inl (input_message (entry_inputs site))"
    and "reveal_error site = None \<Longrightarrow> input_error site = None \<Longrightarrow> continue_error site = None \<Longrightarrow>
         \<not> confirm_button_found site \<Longrightarrow>
           fst (scrape site onStep user coll)
             = Inl ''Could not find profile confirmation button: No profile confirmation button found''"
    and "reveal_error site = None \<Longrightarrow> input_error site = None \<Longrightarrow> continue_error site = None \<Longrightarrow>
         confirm_button_found site \<Longrightarrow> confirm_click_error site = None \<Longrightarrow>
         \<not> fst (poll site 0 0) \<Longrightarrow>
           fst (scrape site onStep user coll) = Inl ''Cards did not appear within timeout period''"
  using assms
  by (auto intro!: scrape_error simp: stages_error)

text \<open>
  Claim C4 (hard stages), as the code has it. With the browser launched and the page loaded, a
  failed wait for the reveal button or for the handle input ends the run with an error whose
  message lists what was found on the page: the trimmed non-empty texts of the buttons, or the
  JSON description of every input. A confirm action that finds no visible confirmation button
  ends the run with the fixed message
  \<^verbatim>\<open>Could not find profile confirmation button: No profile confirmation button found\<close>,
  and a results wait that never sees the cards ends it with the fixed message
  \<^verbatim>\<open>Cards did not appear within timeout period\<close>; neither of the two lists any element
  of the page (the buttons are only logged).
\<close>

theorem hard_stage_failure:
  "(launch_error site = None \<and> catch_close_error site = None \<and> goto_error site = None \<and>
    reveal_error site \<noteq> None \<longrightarrow>
      fst (scrape site onStep user coll) = Inl (reveal_message (reveal_buttons site)) \<and>
      (\<forall>t\<in>set (reveal_buttons site).
         trim t \<noteq> [] \<longrightarrow> str_includes (trim t) (reveal_message (reveal_buttons site)))) \<and>
   (launch_error site = None \<and> catch_close_error site = None \<and> goto_error site = None \<and>
    reveal_error site = None \<and> input_error site \<noteq> None \<longrightarrow>
      fst (scrape site onStep user coll) = Inl (input_message (entry_inputs site)) \<and>
      (\<forall>i\<in>set (entry_inputs site).
         str_includes (json_input i) (input_message (entry_inputs site)))) \<and>
   (launch_error site = None \<and> catch_close_error site = None \<and> goto_error site = None \<and>
    reveal_error site = None \<and> input_error site = None \<and> continue_error site = None \<and>
    \<not> confirm_button_found site \<longrightarrow>
      fst (scrape site onStep user coll)
        = Inl ''Could not find profile confirmation button: No profile confirmation button found'') \<and>
   (launch_error site = None \<and> catch_close_error site = None \<and> goto_error site = None \<and>
    reveal_error site = None \<and> input_error site = None \<and> continue_error site = None \<and>
    confirm_button_found site \<and> confirm_click_error site = None \<and> \<not> fst (poll site 0 0) \<longrightarrow>
      fst (scrape site onStep user coll) = Inl ''Cards did not appear within timeout period'')"
proof -
  have a: "launch_error site = None \<and> catch_close_error site = None \<and> goto_error site = None \<and>
    reveal_error site \<noteq> None \<longrightarrow>
      fst (scrape site onStep user coll) = Inl (reveal_message (reveal_buttons site)) \<and>
      (\<forall>t\<in>set (reveal_buttons site).
         trim t \<noteq> [] \<longrightarrow> str_includes (trim t) (reveal_message (reveal_buttons site)))"
    using scrape_failure_messages(1) reveal_message_enumerates by blast
  have b: "launch_error site = None \<and> catch_close_error site = None \<and> goto_error site = None \<and>
    reveal_error site = None \<and> input_error site \<noteq> None \<longrightarrow>
      fst (scrape site onStep user coll) = Inl (input_message (entry_inputs site)) \<and>
      (\<forall>i\<in>set (entry_inputs site).
         str_includes (json_input i) (input_message (entry_inputs site)))"
    using scrape_failure_messages(2) input_message_enumerates by blast
  have c: "launch_error site = None \<and> catch_close_error site = None \<and> goto_error site = None \<and>
    reveal_error site = None \<and> input_error site = None \<and> continue_error site = None \<and>
    \<not> confirm_button_found site \<longrightarrow>
      fst (scrape site onStep user coll)
        = Inl ''Could not find profile confirmation button: No profile confirmation button found''"
    using scrape_failure_messages(3) by blast
  have d: "launch_error site = None \<and> catch_close_error site = None \<and> goto_error site = None \<and>
    reveal_error site = None \<and> input_error site = None \<and> continue_error site = None \<and>
    confirm_button_found site \<and> confirm_click_error site = None \<and> \<not> fst (poll site 0 0) \<longrightarrow>
      fst (scrape site onStep user coll) = Inl ''Cards did not appear within timeout period''"
    using scrape_failure_messages(4) by blast
  show ?thesis by (intro conjI a b c d)
qed

text \<open>The three failures on concrete sites: an entry page with a single e-mail input, a
  confirmation page whose only button is hidden, and a results page that never shows a card.\<close>

theorem hard_stage_failure_witness:
  "fst (scrape no_input_site True ''alice'' []) = Inl (input_message (entry_inputs no_input_site)) \<and>
   in_placeholder (hd (entry_inputs no_input_site)) = ''Your e-mail'' \<and>
   str_includes (json_input (hd (entry_inputs no_input_site)))
     (input_message (entry_inputs no_input_site)) \<and>
   fst (scrape hidden_button_site True ''alice'' [])
     = Inl ''Could not find profile confirmation button: No profile confirmation button found'' \<and>
   fst (scrape stuck_site True ''alice'' []) = Inl ''Cards did not appear within timeout period''"
proof -
  have h1: "launch_error no_input_site = None \<and> catch_close_error no_input_site = None \<and>
    goto_error no_input_site = None \<and> reveal_error no_input_site = None \<and>
    input_error no_input_site \<noteq> None"
    by (simp add: no_input_site_def demo_site_def)
  from hard_stage_failure [where site = no_input_site and onStep = True and user = "''alice''"
      and coll = "[]"] h1
  have g1: "fst (scrape no_input_site True ''alice'' []) = Inl (input_message (entry_inputs no_input_site)) \<and>
      (\<forall>i\<in>set (entry_inputs no_input_site).
         str_includes (json_input i) (input_message (entry_inputs no_input_site)))"
    by blast
  have m: "hd (entry_inputs no_input_site) \<in> set (entry_inputs no_input_site)"
    by (simp add: no_input_site_def)
  have g0: "in_placeholder (hd (entry_inputs no_input_site)) = ''Your e-mail''"
    by (simp add: no_input_site_def)
  from g1 m have g1': "str_includes (json_input (hd (entry_inputs no_input_site)))
     (input_message (entry_inputs no_input_site))"
    by blast
  have h2: "launch_error hidden_button_site = None \<and> catch_close_error hidden_button_site = None \<and>
    goto_error hidden_button_site = None \<and> reveal_error hidden_button_site = None \<and>
    input_error hidden_button_site = None \<and> continue_error hidden_button_site = None \<and>
    \<not> confirm_button_found hidden_button_site"
    by (simp add: hidden_button_site_def demo_site_def confirm_button_found_def buttonTexts_def)
  from hard_stage_failure [where site = hidden_button_site and onStep = True and user = "''alice''"
      and coll = "[]"] h2
  have g2: "fst (scrape hidden_button_site True ''alice'' [])
     = Inl ''Could not find profile confirmation button: No profile confirmation button found''"
    by blast
  have np: "\<not> fst (poll stuck_site 0 0)"
    by (rule poll_never) (simp add: stuck_site_def cards_ready_def)
  have h3: "launch_error stuck_site = None \<and> catch_close_error stuck_site = None \<and>
    goto_error stuck_site = None \<and> reveal_error stuck_site = None \<and>
    input_error stuck_site = None \<and> continue_error stuck_site = None \<and>
    confirm_button_found stuck_site \<and> confirm_click_error stuck_site = None"
    by (simp add: stuck_site_def demo_site_def confirm_button_found_def buttonTexts_def)
  from hard_stage_failure [where site = stuck_site and onStep = True and user = "''alice''"
      and coll = "[]"] h3 np
  have g3: "fst (scrape stuck_site True ''alice'' []) = Inl ''Cards did not appear within timeout period''"
    by blast
  from g1 have g1a: "fst (scrape no_input_site True ''alice'' [])
      = Inl (input_message (entry_inputs no_input_site))"
    by (rule conjunct1)
  show ?thesis by (intro conjI g1a g0 g1' g2 g3)
qed

text \<open>The page of the failed confirm action has a button labelled \<^verbatim>\<open>Retry\<close>; the message of
  the error does not mention it.\<close>

theorem hidden_button_counterexample:
  "fst (scrape hidden_button_site True ''alice'' [])
     = Inl ''Could not find profile confirmation button: No profile confirmation button found'' \<and>
   map btn_text (confirm_buttons hidden_button_site) = [''Retry''] \<and>
   \<not> str_includes ''Retry''
        ''Could not find profile confirmation button: No profile confirmation button found'' \<and>
   fst (scrape stuck_site True ''alice'' []) = Inl ''Cards did not appear within timeout period''"
proof -
  have g2: "fst (scrape hidden_button_site True ''alice'' [])
     = Inl ''Could not find profile confirmation button: No profile confirmation button found''"
    by (rule scrape_failure_messages(3))
       (simp_all add: hidden_button_site_def demo_site_def confirm_button_found_def buttonTexts_def)
  have b: "map btn_text (confirm_buttons hidden_button_site) = [''Retry'']"
    by (simp add: hidden_button_site_def demo_site_def)
  have n: "\<not> str_includes ''Retry''
        ''Could not find profile confirmation button: No profile confirmation button found''"
    by code_simp
  have np: "\<not> fst (poll stuck_site 0 0)"
    by (rule poll_never) (simp add: stuck_site_def cards_ready_def)
  have g3: "fst (scrape stuck_site True ''alice'' []) = Inl ''Cards did not appear within timeout period''"
    by (rule scrape_failure_messages(4) [OF _ _ _ _ _ _ _ _ np])
       (simp_all add: stuck_site_def demo_site_def confirm_button_found_def buttonTexts_def)
  show ?thesis by (intro conjI g2 b n g3)
qed


section \<open>The cached answer\<close>



















end
